theory Spec2Isabelle
  imports Main
begin

section \<open>JavaScript values\<close>

text \<open>
  The messaging layer is dynamically typed: a handler may return or throw any value, and
  the router inspects what it got with \<^verbatim>\<open>instanceof\<close>, \<^verbatim>\<open>typeof\<close> and truthiness.
  Values are therefore modelled as one datatype. An object carries the class it was
  constructed by (what \<^verbatim>\<open>instanceof\<close> looks at; \<open>NullPrototype\<close> is an object made by
  \<^verbatim>\<open>Object.create(null)\<close>) and its own properties in order of assignment. The values are
  data: no property holds a function. Numbers are the integer-valued ones (status codes,
  sizes). A promise carries what it settles to.
\<close>

datatype cls =
    PlainObject | NullPrototype | ErrorObject
  | ResponseC | SuccessC | FailureC | UnknownC | ScriptErrorC

datatype 'v settlement = Pending | Fulfilled 'v | Rejected 'v

datatype jsval =
    Undefined
  | Null
  | JBool bool
  | JNum int
  | JStr string
  | JArr "jsval list"
  | JObj cls "(string \<times> jsval) list"
  | JPromise "jsval settlement"

text \<open>Truthiness, as \<^verbatim>\<open>if (v)\<close>, \<^verbatim>\<open>!v\<close> and \<^verbatim>\<open>v || w\<close> see it.\<close>

fun truthy :: "jsval \<Rightarrow> bool" where
  "truthy Undefined = False"
| "truthy Null = False"
| "truthy (JBool b) = b"
| "truthy (JNum n) = (n \<noteq> 0)"
| "truthy (JStr s) = (s \<noteq> [])"
| "truthy (JArr _) = True"
| "truthy (JObj _ _) = True"
| "truthy (JPromise _) = True"

definition js_or :: "jsval \<Rightarrow> jsval \<Rightarrow> jsval" where
  "js_or a b = (if truthy a then a else b)"

text \<open>\<^verbatim>\<open>typeof v === "object"\<close> (which holds of \<^verbatim>\<open>null\<close> too).\<close>

fun typeof_object :: "jsval \<Rightarrow> bool" where
  "typeof_object Null = True"
| "typeof_object (JArr _) = True"
| "typeof_object (JObj _ _) = True"
| "typeof_object (JPromise _) = True"
| "typeof_object _ = False"

text \<open>
  Reading a named property (\<^verbatim>\<open>v.message\<close>, \<^verbatim>\<open>v.type\<close>, \<^verbatim>\<open>v.code\<close>) of a value that is
  neither \<^verbatim>\<open>null\<close> nor \<^verbatim>\<open>undefined\<close>: an object gives its own property, or else what
  its prototype has under that name (\<^verbatim>\<open>Error.prototype\<close> has an empty \<^verbatim>\<open>message\<close> and the
  \<^verbatim>\<open>name\<close> \<^verbatim>\<open>"Error"\<close>); a primitive, an array or a promise has none of the names the
  code reads this way. On \<^verbatim>\<open>null\<close> and
  \<^verbatim>\<open>undefined\<close> the read throws; callers that can meet them guard the read
  themselves, or use \<open>js_get_opt\<close>, the optional chaining \<^verbatim>\<open>v?.k\<close>.
\<close>

fun inherited_property :: "cls \<Rightarrow> string \<Rightarrow> jsval" where
  "inherited_property ErrorObject k =
     (if k = ''message'' then JStr [] else if k = ''name'' then JStr ''Error'' else Undefined)"
| "inherited_property _ k = Undefined"

fun js_get :: "jsval \<Rightarrow> string \<Rightarrow> jsval" where
  "js_get (JObj c fs) k = (case map_of fs k of Some v \<Rightarrow> v | None \<Rightarrow> inherited_property c k)"
| "js_get _ k = Undefined"

fun nullish :: "jsval \<Rightarrow> bool" where
  "nullish Undefined = True"
| "nullish Null = True"
| "nullish _ = False"

definition js_get_opt :: "jsval \<Rightarrow> string \<Rightarrow> jsval" where
  "js_get_opt v k = (if nullish v then Undefined else js_get v k)"

fun instanceof_Promise :: "jsval \<Rightarrow> bool" where
  "instanceof_Promise (JPromise _) = True"
| "instanceof_Promise _ = False"

fun is_response_class :: "cls \<Rightarrow> bool" where
  "is_response_class PlainObject = False"
| "is_response_class NullPrototype = False"
| "is_response_class ErrorObject = False"
| "is_response_class _ = True"

fun instanceof_Response :: "jsval \<Rightarrow> bool" where
  "instanceof_Response (JObj c _) = is_response_class c"
| "instanceof_Response _ = False"

text \<open>
  Whether converting a value to a string (\<^verbatim>\<open>String(v)\<close>, a template literal, the operand of
  \<^verbatim>\<open>==\<close>) throws a \<^verbatim>\<open>TypeError\<close>. A primitive and a promise always convert. An array
  converts by joining its elements, so it throws when an element does (\<^verbatim>\<open>null\<close> and
  \<^verbatim>\<open>undefined\<close> elements are written as the empty string). An object converts through
  the \<^verbatim>\<open>toString\<close> it inherits: there is none for \<^verbatim>\<open>Object.create(null)\<close>, an own
  property \<^verbatim>\<open>toString\<close> hides it (and is not a function), and then \<^verbatim>\<open>valueOf\<close> gives no
  primitive either; \<^verbatim>\<open>Error.prototype.toString\<close> in turn converts the \<^verbatim>\<open>name\<close> and the
  \<^verbatim>\<open>message\<close> of the error.
\<close>

primrec unconvertible :: "jsval \<Rightarrow> bool" where
  "unconvertible Undefined = False"
| "unconvertible Null = False"
| "unconvertible (JBool b) = False"
| "unconvertible (JNum n) = False"
| "unconvertible (JStr s) = False"
| "unconvertible (JArr xs) = (True \<in> set (map unconvertible xs))"
| "unconvertible (JObj c fs) =
     (c = NullPrototype \<or>
      map_of (map (map_prod id unconvertible) fs) ''toString'' \<noteq> None \<or>
      (c = ErrorObject \<and>
       (map_of (map (map_prod id unconvertible) fs) ''name'' = Some True \<or>
        map_of (map (map_prod id unconvertible) fs) ''message'' = Some True)))"
| "unconvertible (JPromise p) = False"

text \<open>
  The error a property read on \<^verbatim>\<open>null\<close> or \<^verbatim>\<open>undefined\<close>, a call of something that is not
  a function, or a failed conversion throws. Its message text is the engine's own and
  stands here as a placeholder.
\<close>

definition TypeError :: jsval where
  "TypeError = JObj ErrorObject [(''message'', JStr ''TypeError'')]"

text \<open>A call either returns a value or throws one.\<close>

datatype outcome = Returns jsval | Throws jsval

section \<open>The runtime\<close>

text \<open>
  What the JavaScript engine itself computes, and the repository's code only calls, is a
  parameter of the model: what a member of \<^verbatim>\<open>Object.prototype\<close> returns when it is applied
  to an endpoint, the number a string converts to (\<open>None\<close> when it is not an integer),
  and the string an object that converts is written as.
\<close>

record runtime =
  rt_member :: "string \<Rightarrow> jsval list \<Rightarrow> outcome"
  rt_StringToNumber :: "string \<Rightarrow> int option"
  rt_ToString :: "jsval \<Rightarrow> string"

text \<open>
  A string of decimal digits converts to the number it writes, whatever the engine; for
  every other string (signs, blanks, fractions, exponents, other radices) the runtime
  decides.
\<close>

definition decimal_digits :: "string \<Rightarrow> bool" where
  "decimal_digits s = (s \<noteq> [] \<and> list_all (\<lambda>c. c \<in> set ''0123456789'') s)"

definition digits_value :: "string \<Rightarrow> nat" where
  "digits_value s = foldl (\<lambda>n c. 10 * n + (of_char c - 48)) 0 s"

definition string_equals_200 :: "runtime \<Rightarrow> string \<Rightarrow> bool" where
  "string_equals_200 rt s =
     (if decimal_digits s then digits_value s = 200 else rt_StringToNumber rt s = Some 200)"

text \<open>
  \<^verbatim>\<open>v == 200\<close>, the loose comparison both adapters make; \<open>None\<close> when it throws. A
  number is compared as it is, \<^verbatim>\<open>undefined\<close>, \<^verbatim>\<open>null\<close> and the booleans are never equal
  to 200, a string is converted to a number, and an object (an array, a promise) is first
  converted to a string.
\<close>

definition loose_equals_200 :: "runtime \<Rightarrow> jsval \<Rightarrow> bool option" where
  "loose_equals_200 rt v =
     (case v of
        Undefined \<Rightarrow> Some False
      | Null \<Rightarrow> Some False
      | JBool b \<Rightarrow> Some False
      | JNum n \<Rightarrow> Some (n = 200)
      | JStr s \<Rightarrow> Some (string_equals_200 rt s)
      | _ \<Rightarrow> if unconvertible v then None
             else Some (string_equals_200 rt (rt_ToString rt v)))"

section \<open>LoggerWrapper.error\<close>

text \<open>
  \<^verbatim>\<open>Logger.error(err)\<close> returns at once for a string. For any other value it computes
  \<^verbatim>\<open>typeof e?.message === "string" ? e.message : String(e?.message ?? err)\<close> before it
  looks at the debug flag, so it throws exactly when that conversion does, in debug mode
  or not. The other logger calls of the modelled code build their text from strings and
  dump their arguments without converting objects; they are left out, except where a
  template literal converts a value that may not convert.
\<close>

definition Logger_error_throws :: "jsval \<Rightarrow> bool" where
  "Logger_error_throws err =
     (case err of
        JStr _ \<Rightarrow> False
      | _ \<Rightarrow>
          (case js_get_opt err ''message'' of
             JStr _ \<Rightarrow> False
           | m \<Rightarrow> unconvertible (if nullish m then err else m)))"

section \<open>Message.ts: requests and responses\<close>

text \<open>
  Each response constructor calls \<^verbatim>\<open>super(code)\<close> and then assigns its own fields in the
  order of the source. A parameter the caller leaves out is \<open>Undefined\<close>.
\<close>

definition Success :: "jsval \<Rightarrow> jsval \<Rightarrow> jsval" where
  "Success data nm =
     JObj SuccessC
       [(''code'', JNum 200), (''name'', nm), (''refid'', Undefined), (''content'', data)]"

definition Failure :: "jsval \<Rightarrow> jsval \<Rightarrow> jsval \<Rightarrow> jsval" where
  "Failure msg ty nm =
     JObj FailureC
       [(''code'', JNum 403), (''name'', nm), (''type'', js_or ty Null), (''message'', msg)]"

definition Unknown :: "jsval \<Rightarrow> jsval \<Rightarrow> jsval" where
  "Unknown msg nm =
     JObj UnknownC [(''code'', JNum 404), (''name'', nm), (''message'', msg)]"

text \<open>
  \<^verbatim>\<open>ScriptError\<close>: inside the guard the parameter \<^verbatim>\<open>err\<close> is first overwritten by its own
  \<^verbatim>\<open>message\<close>, and only then is \<^verbatim>\<open>err.type\<close> read, so the second read looks at the
  message (a truthy value, so the read does not throw), not at the value that was passed
  in.
\<close>

definition ScriptError :: "jsval \<Rightarrow> jsval \<Rightarrow> jsval \<Rightarrow> jsval" where
  "ScriptError err ty nm =
     (let (err2, ty2) =
        (if typeof_object err \<and> err \<noteq> Null \<and> truthy (js_get err ''message'') then
           (let err1 = (if truthy (js_get err ''message'') then js_get err ''message'' else err);
                ty1 = (if truthy (js_get err1 ''type'') then js_get err1 ''type'' else ty)
            in (err1, ty1))
         else (err, ty))
      in JObj ScriptErrorC
           [(''code'', JNum 500), (''name'', nm), (''type'', js_or ty2 Null), (''message'', err2)])"

text \<open>The static factories of \<^verbatim>\<open>Message\<close>.\<close>

definition Message_success :: "jsval \<Rightarrow> jsval \<Rightarrow> jsval" where
  "Message_success data nm = Success data nm"

definition Message_failure :: "jsval \<Rightarrow> jsval \<Rightarrow> jsval \<Rightarrow> jsval" where
  "Message_failure msg ty nm = Failure msg ty nm"

definition Message_error :: "jsval \<Rightarrow> jsval \<Rightarrow> jsval \<Rightarrow> jsval" where
  "Message_error err ty nm = ScriptError err ty nm"

definition Message_unknown :: "jsval \<Rightarrow> jsval \<Rightarrow> jsval" where
  "Message_unknown msg nm = Unknown msg nm"

section \<open>Endpoint: the request router\<close>

text \<open>
  A handler is a JavaScript function: called with an argument list it may change the
  world outside the router (type \<open>'s\<close>: counters, sent messages, anything the handler
  touches) and either returns a value or throws one.
\<close>

type_synonym 's handler = "jsval list \<Rightarrow> 's \<Rightarrow> outcome \<times> 's"

text \<open>
  The \<^verbatim>\<open>request(route, params)\<close> and \<^verbatim>\<open>post(route, params)\<close> members a forwarder may
  have. The base class \<^verbatim>\<open>Endpoint\<close> defines neither; the transport subclasses do.
\<close>

type_synonym 's forward_method = "string \<Rightarrow> jsval \<Rightarrow> 's \<Rightarrow> outcome \<times> 's"

text \<open>
  A pipe pattern is used through \<^verbatim>\<open>regexp.test(name)\<close> only, so it is modelled by that
  test (a pattern without the stateful \<^verbatim>\<open>g\<close> and \<^verbatim>\<open>y\<close> flags, as all pipes of the
  repository are).
\<close>

type_synonym regexp = "string \<Rightarrow> bool"

record request =
  req_name :: string
  req_params :: jsval
  req_id :: jsval
  req_delay :: jsval
  req_async :: jsval
  req_silent :: jsval

text \<open>\<^verbatim>\<open>new Request(name, params)\<close>.\<close>

definition Message_request :: "string \<Rightarrow> jsval \<Rightarrow> request" where
  "Message_request nm ps =
     \<lparr>req_name = nm, req_params = ps, req_id = JStr ''-1'', req_delay = JNum 0,
      req_async = JBool False, req_silent = JBool False\<rparr>"

text \<open>
  Endpoints refer to each other (\<^verbatim>\<open>join\<close> makes each the other's forwarder), so they
  live in a store and \<^verbatim>\<open>forwarder\<close> is a reference: to another endpoint, to the empty
  object \<^verbatim>\<open>{}\<close> the constructor installs, or nothing (\<^verbatim>\<open>undefined\<close>, as in the legacy
  constructor). The two pipe lists may have holes: \<^verbatim>\<open>unpipe\<close> removes an entry with
  \<^verbatim>\<open>delete list[idx]\<close>. \<open>routes\<close> holds the own properties of the table, the handlers
  registered under a name.
\<close>

datatype forwarder_ref = NoForwarder | EmptyObject | EndpointRef nat

datatype endpoint_class = EndpointClass | BackgroundListenerClass

record 's endpoint =
  routes :: "string \<rightharpoonup> 's handler"
  pipes_plain :: "string option list"
  pipes_regexp :: "regexp option list"
  forwarder :: forwarder_ref
  ep_class :: endpoint_class
  request_method :: "'s forward_method option"
  post_method :: "'s forward_method option"

type_synonym 's store = "nat \<rightharpoonup> 's endpoint"

text \<open>The constructor of the base class: empty registries, forwarder \<^verbatim>\<open>{}\<close>.\<close>

definition new_Endpoint :: "'s endpoint" where
  "new_Endpoint =
     \<lparr>routes = Map.empty, pipes_plain = [], pipes_regexp = [], forwarder = EmptyObject,
      ep_class = EndpointClass, request_method = None, post_method = None\<rparr>"

definition quoted :: "string \<Rightarrow> string" where
  "quoted s = [CHR 0x27] @ s @ [CHR 0x27]"

datatype pipe_arg = PipeString string | PipeRegExp regexp | PipeOther jsval

text \<open>
  \<^verbatim>\<open>pipe(...routes)\<close>: a string goes to the plain list, a pattern to the regexp list, and
  anything else ends the loop with a \<^verbatim>\<open>return\<close>.
\<close>

fun pipe :: "pipe_arg list \<Rightarrow> 's endpoint \<Rightarrow> 's endpoint" where
  "pipe [] ep = ep"
| "pipe (PipeString r # rs) ep = pipe rs (ep\<lparr>pipes_plain := pipes_plain ep @ [Some r]\<rparr>)"
| "pipe (PipeRegExp r # rs) ep = pipe rs (ep\<lparr>pipes_regexp := pipes_regexp ep @ [Some r]\<rparr>)"
| "pipe (PipeOther _ # rs) ep = ep"

text \<open>
  \<^verbatim>\<open>join(endpoint)\<close>, called on the endpoint at address \<open>a\<close> with the one at \<open>b\<close>: two
  assignments, in the order of the source.
\<close>

definition join :: "nat \<Rightarrow> nat \<Rightarrow> 's store \<Rightarrow> 's store" where
  "join a b st =
     (let st1 = (case st a of
                   Some e \<Rightarrow> st(a \<mapsto> e\<lparr>forwarder := EndpointRef b\<rparr>)
                 | None \<Rightarrow> st)
      in (case st1 b of
            Some e \<Rightarrow> st1(b \<mapsto> e\<lparr>forwarder := EndpointRef a\<rparr>)
          | None \<Rightarrow> st1))"

text \<open>
  \<^verbatim>\<open>forward(route, params)\<close>: the forwarder's \<^verbatim>\<open>request\<close> if it is a function, else its
  \<^verbatim>\<open>post\<close> if it is a function, else nothing is called and the result is \<^verbatim>\<open>undefined\<close>.
  \<open>call_forwarder\<close> is that choice, made on the object the forwarder refers to.
\<close>

definition call_forwarder :: "'s endpoint \<Rightarrow> string \<Rightarrow> jsval \<Rightarrow> 's \<Rightarrow> outcome \<times> 's" where
  "call_forwarder other nm params s =
     (case request_method other of
        Some m \<Rightarrow> m nm params s
      | None \<Rightarrow>
          (case post_method other of
             Some m \<Rightarrow> m nm params s
           | None \<Rightarrow> (Returns Undefined, s)))"

definition forward :: "'s store \<Rightarrow> 's endpoint \<Rightarrow> string \<Rightarrow> jsval \<Rightarrow> 's \<Rightarrow> outcome \<times> 's" where
  "forward st ep nm params s =
     (case forwarder ep of
        NoForwarder \<Rightarrow> (Returns Undefined, s)
      | EmptyObject \<Rightarrow> (Returns Undefined, s)
      | EndpointRef b \<Rightarrow>
          (case st b of
             None \<Rightarrow> (Returns Undefined, s)
           | Some other \<Rightarrow> call_forwarder other nm params s))"

text \<open>
  The table is created as \<^verbatim>\<open>{}\<close>, so the read \<^verbatim>\<open>this.routes[name]\<close> that finds no own
  property goes on to \<^verbatim>\<open>Object.prototype\<close> and finds its member of that name. These are
  the names of its members; none of them is \<^verbatim>\<open>undefined\<close> or falsy.
\<close>

definition Object_prototype_names :: "string list" where
  "Object_prototype_names =
     [''constructor'', ''hasOwnProperty'', ''isPrototypeOf'', ''propertyIsEnumerable'',
      ''toLocaleString'', ''toString'', ''valueOf'', ''__proto__'', ''__defineGetter__'',
      ''__defineSetter__'', ''__lookupGetter__'', ''__lookupSetter__'']"

text \<open>
  What \<^verbatim>\<open>_findRoute\<close> returns: the registered function, the inherited member, or the
  closure that \<^verbatim>\<open>_createPipe(name)\<close> builds.
\<close>

datatype 's route_handler = Registered "'s handler" | Inherited string | PipeTo string

definition routes_read :: "'s endpoint \<Rightarrow> string \<Rightarrow> 's route_handler option" where
  "routes_read ep nm =
     (case routes ep nm of
        Some h \<Rightarrow> Some (Registered h)
      | None \<Rightarrow> if nm \<in> set Object_prototype_names then Some (Inherited nm) else None)"

definition createPipe :: "string \<Rightarrow> 's route_handler" where
  "createPipe nm = PipeTo nm"

text \<open>The loop over \<^verbatim>\<open>pipes.regexp\<close>: holes are skipped, the first pattern that tests wins.\<close>

fun findRoute_regexp :: "regexp option list \<Rightarrow> string \<Rightarrow> 's route_handler option" where
  "findRoute_regexp [] nm = None"
| "findRoute_regexp (None # rs) nm = findRoute_regexp rs nm"
| "findRoute_regexp (Some r # rs) nm =
     (if r nm then Some (createPipe nm) else findRoute_regexp rs nm)"

definition findRoute :: "'s endpoint \<Rightarrow> request \<Rightarrow> 's route_handler option" where
  "findRoute ep request =
     (case routes_read ep (req_name request) of
        Some h \<Rightarrow> Some h
      | None \<Rightarrow>
          if Some (req_name request) \<in> set (pipes_plain ep)
          then Some (createPipe (req_name request))
          else findRoute_regexp (pipes_regexp ep) (req_name request))"

text \<open>
  The body of a pipe closure turns its arguments back into one params value. The
  background listener overrides \<^verbatim>\<open>_createPipe\<close>: its closure drops the first argument
  (the port).
\<close>

fun pipe_params :: "endpoint_class \<Rightarrow> jsval list \<Rightarrow> jsval" where
  "pipe_params EndpointClass [] = Null"
| "pipe_params EndpointClass [a] = a"
| "pipe_params EndpointClass args = JArr args"
| "pipe_params BackgroundListenerClass [p] = Null"
| "pipe_params BackgroundListenerClass [p, a] = a"
| "pipe_params BackgroundListenerClass args = JArr (tl args)"

text \<open>
  An inherited member applied to the endpoint. \<^verbatim>\<open>Object.prototype.toString\<close> and
  \<^verbatim>\<open>toLocaleString\<close>, which calls it, give \<^verbatim>\<open>"[object Object]"\<close> for an endpoint; what the
  other members give is the runtime's.
\<close>

definition Object_prototype_apply :: "runtime \<Rightarrow> string \<Rightarrow> jsval list \<Rightarrow> outcome" where
  "Object_prototype_apply rt nm args =
     (if nm = ''toString'' \<or> nm = ''toLocaleString'' then Returns (JStr ''[object Object]'')
      else rt_member rt nm args)"

text \<open>\<^verbatim>\<open>route.apply(context, args)\<close> with the endpoint itself as context.\<close>

definition apply_handler ::
  "runtime \<Rightarrow> 's store \<Rightarrow> 's endpoint \<Rightarrow> 's route_handler \<Rightarrow> jsval list \<Rightarrow> 's \<Rightarrow> outcome \<times> 's"
  where
  "apply_handler rt st ep h args s =
     (case h of
        Registered f \<Rightarrow> f args s
      | Inherited nm \<Rightarrow> (Object_prototype_apply rt nm args, s)
      | PipeTo nm \<Rightarrow> forward st ep nm (pipe_params (ep_class ep) args) s)"

definition buildArguments :: "request \<Rightarrow> jsval \<Rightarrow> jsval list" where
  "buildArguments request port =
     (if truthy port then
        (case req_params request of JArr ps \<Rightarrow> port # ps | p \<Rightarrow> [port, p])
      else
        (case req_params request of JArr ps \<Rightarrow> ps | p \<Rightarrow> [p]))"

text \<open>
  \<^verbatim>\<open>_routeCall\<close>: the call is inside \<^verbatim>\<open>try\<close>. The \<^verbatim>\<open>catch\<close> branch first calls
  \<^verbatim>\<open>Logger.error(err)\<close>, whose own \<^verbatim>\<open>TypeError\<close> leaves \<^verbatim>\<open>_routeCall\<close>, and then returns
  \<^verbatim>\<open>Message.failure(err?.message)\<close>.
\<close>

definition routeCall ::
  "runtime \<Rightarrow> 's store \<Rightarrow> 's endpoint \<Rightarrow> 's route_handler \<Rightarrow> jsval list \<Rightarrow> 's \<Rightarrow> outcome \<times> 's"
  where
  "routeCall rt st ep h args s =
     (case apply_handler rt st ep h args s of
        (Returns response, s') \<Rightarrow>
          (Returns
             (if instanceof_Promise response then response
              else if instanceof_Response response then response
              else Message_success response Undefined), s')
      | (Throws err, s') \<Rightarrow>
          (if Logger_error_throws err then Throws TypeError
           else Returns (Message_failure (js_get_opt err ''message'') Undefined Undefined),
           s'))"

text \<open>
  \<^verbatim>\<open>route(request, port)\<close> first normalises the three flags of the request in place
  (\<^verbatim>\<open>request.silent = request.silent || false\<close> and so on).
\<close>

definition normalize_flags :: "request \<Rightarrow> request" where
  "normalize_flags request =
     request\<lparr>req_silent := js_or (req_silent request) (JBool False),
             req_async := js_or (req_async request) (JBool False),
             req_delay := js_or (req_delay request) (JNum 0)\<rparr>"

text \<open>
  The result is what \<^verbatim>\<open>route\<close> returns (\<open>Returns Undefined\<close> when it returns nothing) or
  throws, and the world after the handler ran.
\<close>

definition route ::
  "runtime \<Rightarrow> 's store \<Rightarrow> 's endpoint \<Rightarrow> request \<Rightarrow> jsval \<Rightarrow> 's \<Rightarrow> outcome \<times> 's" where
  "route rt st ep request0 port s =
     (let request = normalize_flags request0 in
      case findRoute ep request of
        Some h \<Rightarrow>
          (let args = buildArguments request port in
           case routeCall rt st ep h args s of
             (Returns response, s') \<Rightarrow>
               (Returns (if req_silent request = JBool False then response else Undefined), s')
           | (Throws e, s') \<Rightarrow> (Throws e, s'))
      | None \<Rightarrow>
          (Returns
             (Message_unknown (JStr (''Unknown route '' @ quoted (req_name request))) Undefined),
           s))"

section \<open>Request/response transport adapters\<close>

text \<open>
  What the executor of \<^verbatim>\<open>handleRequest\<close> and the first callback of
  \<^verbatim>\<open>NativeHostClient.request\<close> do with a response: \<^verbatim>\<open>resolve(response)\<close> when
  \<^verbatim>\<open>response.code == 200\<close>, else \<^verbatim>\<open>reject(Message.error(response.message,
  response.type))\<close>; \<open>None\<close> when the read of \<^verbatim>\<open>response.code\<close> or the comparison throws
  before either is reached.
\<close>

definition settle_on_code :: "runtime \<Rightarrow> jsval \<Rightarrow> jsval settlement option" where
  "settle_on_code rt response =
     (if nullish response then None
      else
        (case loose_equals_200 rt (js_get response ''code'') of
           None \<Rightarrow> None
         | Some True \<Rightarrow> Some (Fulfilled response)
         | Some False \<Rightarrow>
             Some (Rejected
                     (Message_error (js_get response ''message'') (js_get response ''type'')
                        Undefined))))"

text \<open>
  \<^verbatim>\<open>BackgroundListener.handleRequest(message, port)\<close>: what \<^verbatim>\<open>route\<close> throws goes on to the
  caller; a promise from the router is returned as it is; anything else is settled inside
  the executor of a new promise, where a throw rejects it.
\<close>

definition handleRequest ::
  "runtime \<Rightarrow> 's store \<Rightarrow> 's endpoint \<Rightarrow> request \<Rightarrow> jsval \<Rightarrow> 's \<Rightarrow> outcome \<times> 's" where
  "handleRequest rt st ep message port s =
     (case route rt st ep message port s of
        (Throws e, s') \<Rightarrow> (Throws e, s')
      | (Returns response, s') \<Rightarrow>
          (Returns
             (if instanceof_Promise response then response
              else JPromise
                (case settle_on_code rt response of
                   None \<Rightarrow> Rejected TypeError
                 | Some r \<Rightarrow> r)),
           s'))"

text \<open>
  \<^verbatim>\<open>NativeHostClient.request(route, params, async)\<close>. The native host is outside the
  program: \<open>sendNativeMessage\<close> gives what the browser's promise for a request settles
  to, and the world is the list of the requests sent to the host, oldest first. The
  result is a promise made by hand, settled from the two callbacks of \<^verbatim>\<open>then\<close>; when
  the first callback throws, neither \<^verbatim>\<open>resolve\<close> nor \<^verbatim>\<open>reject\<close> is reached and the result
  stays pending.
\<close>

definition NativeHostClient_request ::
  "runtime \<Rightarrow> (request \<Rightarrow> jsval settlement) \<Rightarrow> string \<Rightarrow> jsval \<Rightarrow> jsval \<Rightarrow> request list
     \<Rightarrow> jsval \<times> request list" where
  "NativeHostClient_request rt sendNativeMessage nm params async sent =
     (let request = (Message_request nm params)\<lparr>req_async := js_or async (JBool False)\<rparr>
      in (JPromise
            (case sendNativeMessage request of
               Fulfilled response \<Rightarrow>
                 (case settle_on_code rt response of None \<Rightarrow> Pending | Some r \<Rightarrow> r)
             | Rejected error \<Rightarrow> Rejected (Message_error error Undefined Undefined)
             | Pending \<Rightarrow> Pending),
          sent @ [request]))"

section \<open>The download service\<close>

text \<open>
  A listener either runs to its end or stops at a \<^verbatim>\<open>TypeError\<close>; what it changed before
  the throw stays changed, so both results carry the state.
\<close>

datatype ('a, 's) run = Done 'a 's | Threw 's

fun final_state :: "('a, 's) run \<Rightarrow> 's" where
  "final_state (Done _ s) = s"
| "final_state (Threw s) = s"

fun completed :: "('a, 's) run \<Rightarrow> bool" where
  "completed (Done _ _) = True"
| "completed (Threw _) = False"

definition and_then :: "(unit, 's) run \<Rightarrow> ('s \<Rightarrow> (unit, 's) run) \<Rightarrow> (unit, 's) run" where
  "and_then r f = (case r of Done _ s \<Rightarrow> f s | Threw s \<Rightarrow> Threw s)"

record DownloadJobResponse =
  dr_id :: jsval
  dr_name :: jsval
  dr_destination :: string
  dr_reason :: jsval
  dr_success :: bool
  dr_downloading :: bool

text \<open>
  An entry of \<^verbatim>\<open>jobs\<close>. The completion callback is a function of the caller's; the model
  keeps which one it is and records its calls. \<^verbatim>\<open>response\<close> and \<^verbatim>\<open>onFinish\<close> are
  \<^verbatim>\<open>null\<close> (here \<open>None\<close>) in an entry that \<^verbatim>\<open>_onCreatedListener\<close> made for a download the
  service did not start, and \<^verbatim>\<open>onFinish\<close> is \<^verbatim>\<open>undefined\<close> when the job came without one.
\<close>

record download_entry =
  job_port :: jsval
  job_response :: "DownloadJobResponse option"
  job_onFinish :: "nat option"
  job_id :: int
  job_filename :: string
  job_fileSize :: int
  job_totalBytes :: int
  job_exists :: "bool option"

text \<open>What the service does to the outside: callback calls and calls of the downloads API.\<close>

datatype download_event =
    OnFinish nat jsval DownloadJobResponse
  | RemoveFile int
  | Erase int

record DownloadService =
  dirDownloads :: "string option"
  dl_jobs :: "int \<rightharpoonup> download_entry"
  dl_emitted :: "download_event list"

definition new_DownloadService :: DownloadService where
  "new_DownloadService = \<lparr>dirDownloads = None, dl_jobs = Map.empty, dl_emitted = []\<rparr>"

definition new_DownloadJobResponse :: DownloadJobResponse where
  "new_DownloadJobResponse =
     \<lparr>dr_id = JNum 0, dr_name = JStr [], dr_destination = [], dr_reason = JStr [],
      dr_success = False, dr_downloading = False\<rparr>"

text \<open>
  The callback of \<^verbatim>\<open>createJob\<close> that runs when the browser has assigned the download its
  id: it fills the entry \<^verbatim>\<open>_onCreatedListener\<close> may already have made, or makes one. Its
  debug message is built first and converts \<^verbatim>\<open>port.contextId\<close>.
\<close>

definition jobStarted ::
  "jsval \<Rightarrow> DownloadJobResponse \<Rightarrow> nat option \<Rightarrow> int \<Rightarrow> DownloadService
     \<Rightarrow> (unit, DownloadService) run" where
  "jobStarted port response onFinish i svc =
     (if nullish port \<or> unconvertible (js_get port ''contextId'') then Threw svc
      else
        (let response' = response\<lparr>dr_downloading := True\<rparr> in
         case dl_jobs svc i of
           Some j \<Rightarrow>
             Done () (svc\<lparr>dl_jobs := (dl_jobs svc)(i \<mapsto>
                    j\<lparr>job_response := Some response', job_port := port, job_id := i,
                      job_onFinish := onFinish\<rparr>)\<rparr>)
         | None \<Rightarrow>
             Done () (svc\<lparr>dl_jobs := (dl_jobs svc)(i \<mapsto>
                    \<lparr>job_port = port, job_response = Some response', job_onFinish = onFinish,
                     job_id = i, job_filename = [], job_fileSize = 0, job_totalBytes = 0,
                     job_exists = None\<rparr>)\<rparr>)))"

record download_item =
  item_id :: int
  item_filename :: string
  item_fileSize :: int
  item_totalBytes :: int

definition onCreatedListener :: "download_item \<Rightarrow> DownloadService \<Rightarrow> (unit, DownloadService) run" where
  "onCreatedListener item svc =
     (case dl_jobs svc (item_id item) of
        Some j \<Rightarrow>
          (let j' = j\<lparr>job_filename := item_filename item, job_fileSize := item_fileSize item,
                       job_totalBytes := item_totalBytes item\<rparr>
           in case job_response j' of
                None \<Rightarrow> Threw (svc\<lparr>dl_jobs := (dl_jobs svc)(item_id item \<mapsto> j')\<rparr>)
              | Some r \<Rightarrow>
                  Done () (svc\<lparr>dl_jobs := (dl_jobs svc)(item_id item \<mapsto>
                     j'\<lparr>job_response := Some (r\<lparr>dr_destination := item_filename item\<rparr>)\<rparr>)\<rparr>))
      | None \<Rightarrow>
          Done () (svc\<lparr>dl_jobs := (dl_jobs svc)(item_id item \<mapsto>
             \<lparr>job_port = Null, job_response = None, job_onFinish = None,
              job_id = item_id item, job_filename = item_filename item,
              job_fileSize = item_fileSize item, job_totalBytes = item_totalBytes item,
              job_exists = None\<rparr>)\<rparr>))"

text \<open>
  \<^verbatim>\<open>_notifyDownloadJob(id, success, reason)\<close>: the callback is called only when the entry
  has both a response and a callback. It reads \<^verbatim>\<open>this.jobs[id]\<close> without a check, and
  its debug message for a failure converts the reason.
\<close>

definition notifyDownloadJob ::
  "int \<Rightarrow> bool \<Rightarrow> jsval \<Rightarrow> DownloadService \<Rightarrow> (bool, DownloadService) run" where
  "notifyDownloadJob i success reason svc =
     (case dl_jobs svc i of
        None \<Rightarrow> Threw svc
      | Some j \<Rightarrow>
          if \<not> success \<and> unconvertible reason then Threw svc else
          (case (job_response j, job_onFinish j) of
             (Some r, Some cb) \<Rightarrow>
               (let r' = r\<lparr>dr_downloading := False, dr_success := success,
                            dr_reason := js_or reason (JStr []),
                            dr_destination := job_filename j\<rparr>
                in Done True
                     (svc\<lparr>dl_jobs := (dl_jobs svc)(i \<mapsto> j\<lparr>job_response := Some r'\<rparr>),
                          dl_emitted := dl_emitted svc @ [OnFinish cb (job_port j) r']\<rparr>))
           | _ \<Rightarrow> Done False svc))"

definition cleanupJob :: "int \<Rightarrow> bool \<Rightarrow> DownloadService \<Rightarrow> DownloadService" where
  "cleanupJob i removeFile svc =
     svc\<lparr>dl_jobs := (dl_jobs svc)(i := None),
         dl_emitted := dl_emitted svc @ (if removeFile then [RemoveFile i, Erase i] else [])\<rparr>"

definition notify_and_cleanup ::
  "int \<Rightarrow> bool \<Rightarrow> jsval \<Rightarrow> bool \<Rightarrow> DownloadService \<Rightarrow> (unit, DownloadService) run" where
  "notify_and_cleanup i success reason removeFile svc =
     (case notifyDownloadJob i success reason svc of
        Done _ svc' \<Rightarrow> Done () (cleanupJob i removeFile svc')
      | Threw svc' \<Rightarrow> Threw svc')"

text \<open>
  A \<^verbatim>\<open>downloads.onChanged\<close> delta: its id, and for each property that changed the
  \<^verbatim>\<open>current\<close> value of the change.
\<close>

record download_delta =
  delta_id :: int
  delta_error :: "jsval option"
  delta_filename :: "string option"
  delta_fileSize :: "int option"
  delta_totalBytes :: "int option"
  delta_exists :: "bool option"
  delta_state :: "string option"

text \<open>
  One assignment \<^verbatim>\<open>this.jobs[delta.id].field = value\<close>: a \<^verbatim>\<open>TypeError\<close> when the entry is
  gone (the error branch deletes it and the listener goes on).
\<close>

definition update_entry ::
  "int \<Rightarrow> (download_entry \<Rightarrow> download_entry) \<Rightarrow> DownloadService \<Rightarrow> (unit, DownloadService) run" where
  "update_entry i f svc =
     (case dl_jobs svc i of
        None \<Rightarrow> Threw svc
      | Some j \<Rightarrow> Done () (svc\<lparr>dl_jobs := (dl_jobs svc)(i \<mapsto> f j)\<rparr>))"

definition set_destination :: "int \<Rightarrow> string \<Rightarrow> DownloadService \<Rightarrow> (unit, DownloadService) run" where
  "set_destination i f svc =
     (case dl_jobs svc i of
        None \<Rightarrow> Threw svc
      | Some j \<Rightarrow>
          (case job_response j of
             None \<Rightarrow> Threw svc
           | Some r \<Rightarrow>
               Done () (svc\<lparr>dl_jobs := (dl_jobs svc)(i \<mapsto>
                  j\<lparr>job_response := Some (r\<lparr>dr_destination := f\<rparr>)\<rparr>)\<rparr>)))"

definition on_complete :: "int \<Rightarrow> DownloadService \<Rightarrow> (unit, DownloadService) run" where
  "on_complete i svc =
     (case dl_jobs svc i of
        None \<Rightarrow> Threw svc
      | Some j \<Rightarrow>
          if job_fileSize j = 0
          then notify_and_cleanup i False (JStr ''Empty content'') True svc
          else notify_and_cleanup i True Undefined False svc)"

definition onChangedListener :: "download_delta \<Rightarrow> DownloadService \<Rightarrow> (unit, DownloadService) run" where
  "onChangedListener delta svc =
     (let i = delta_id delta in
      case dl_jobs svc i of
        None \<Rightarrow> Done () svc
      | Some _ \<Rightarrow>
          and_then
            (and_then
              (and_then
                (and_then
                  (and_then
                    (case delta_error delta of
                       Some e \<Rightarrow> notify_and_cleanup i False e True svc
                     | None \<Rightarrow> Done () svc)
                    (\<lambda>svc. case delta_filename delta of
                       Some f \<Rightarrow>
                         and_then (update_entry i (\<lambda>j. j\<lparr>job_filename := f\<rparr>) svc)
                           (set_destination i f)
                     | None \<Rightarrow> Done () svc))
                  (\<lambda>svc. case delta_fileSize delta of
                     Some n \<Rightarrow> update_entry i (\<lambda>j. j\<lparr>job_fileSize := n\<rparr>) svc
                   | None \<Rightarrow> Done () svc))
                (\<lambda>svc. case delta_totalBytes delta of
                   Some n \<Rightarrow> update_entry i (\<lambda>j. j\<lparr>job_totalBytes := n\<rparr>) svc
                 | None \<Rightarrow> Done () svc))
              (\<lambda>svc. case delta_exists delta of
                 Some b \<Rightarrow> update_entry i (\<lambda>j. j\<lparr>job_exists := Some b\<rparr>) svc
               | None \<Rightarrow> Done () svc))
            (\<lambda>svc. case delta_state delta of
               Some st \<Rightarrow> (if st = ''complete'' then on_complete i svc else Done () svc)
             | None \<Rightarrow> Done () svc))"

section \<open>The printer service\<close>

record PrintJob =
  pj_filename :: string
  pj_printerName :: jsval
  pj_onFinish :: "nat option"
  pj_success :: bool
  pj_reason :: jsval

datatype printer_event =
    HostRequest string jsval
  | PrintFinished nat jsval PrintJob

text \<open>
  \<^verbatim>\<open>hostClient\<close> is \<^verbatim>\<open>null\<close> until \<^verbatim>\<open>configure\<close>; the model keeps which client it is and
  records the requests made on it.
\<close>

record PrinterService =
  dirPrinters :: "string option"
  hostClient :: "nat option"
  pr_jobs :: "string \<rightharpoonup> PrintJob"
  pr_emitted :: "printer_event list"

definition new_PrinterService :: PrinterService where
  "new_PrinterService =
     \<lparr>dirPrinters = None, hostClient = None, pr_jobs = Map.empty, pr_emitted = []\<rparr>"

definition configure :: "string \<Rightarrow> nat \<Rightarrow> PrinterService \<Rightarrow> PrinterService" where
  "configure dir client svc = svc\<lparr>dirPrinters := Some dir, hostClient := Some client\<rparr>"

definition finish_print :: "nat option \<Rightarrow> jsval \<Rightarrow> PrintJob \<Rightarrow> printer_event list" where
  "finish_print onFinish port job =
     (case onFinish of Some cb \<Rightarrow> [PrintFinished cb port job] | None \<Rightarrow> [])"

text \<open>
  \<^verbatim>\<open>createJob(port, job)\<close> up to the native request. The result is the value returned
  (always \<^verbatim>\<open>undefined\<close>) and the service afterwards. The debug message is built
  before anything else is done: it converts the printer name, reads \<^verbatim>\<open>port.contextId\<close>,
  which throws on a missing port, and converts it.
\<close>

definition createJob :: "jsval \<Rightarrow> PrintJob \<Rightarrow> PrinterService \<Rightarrow> (jsval, PrinterService) run" where
  "createJob port job svc =
     (if \<not> truthy (pj_printerName job) then Done Undefined svc
      else if unconvertible (pj_printerName job) \<or> nullish port \<or>
              unconvertible (js_get port ''contextId'') then Threw svc
      else
        (let i = pj_filename job;
             onFinish = pj_onFinish job;
             job1 = job\<lparr>pj_onFinish := None\<rparr>
         in case hostClient svc of
              None \<Rightarrow>
                (let job2 = job1\<lparr>pj_success := False,
                       pj_reason := JStr ''PrinterService not configured (hostClient is null)''\<rparr>
                 in Done Undefined
                      (svc\<lparr>pr_jobs := (pr_jobs svc)(i := None),
                           pr_emitted := pr_emitted svc @ finish_print onFinish port job2\<rparr>))
            | Some _ \<Rightarrow>
                Done Undefined
                  (svc\<lparr>pr_jobs := (pr_jobs svc)(i \<mapsto> job1),
                       pr_emitted := pr_emitted svc @
                         [HostRequest ''companion.document.print''
                            (JObj PlainObject
                               [(''printerName'', pj_printerName job),
                                (''path'', JStr (pj_filename job))])]\<rparr>)))"

text \<open>The two callbacks chained on the native request, for the job filed under \<open>i\<close>.\<close>

definition print_fulfilled ::
  "string \<Rightarrow> nat option \<Rightarrow> jsval \<Rightarrow> PrinterService \<Rightarrow> (unit, PrinterService) run" where
  "print_fulfilled i onFinish port svc =
     (case pr_jobs svc i of
        None \<Rightarrow> Threw svc
      | Some j \<Rightarrow>
          (let j' = j\<lparr>pj_success := True\<rparr> in
           Done () (svc\<lparr>pr_jobs := (pr_jobs svc)(i := None),
                        pr_emitted := pr_emitted svc @ finish_print onFinish port j'\<rparr>)))"

definition print_rejected ::
  "string \<Rightarrow> nat option \<Rightarrow> jsval \<Rightarrow> jsval \<Rightarrow> PrinterService \<Rightarrow> (unit, PrinterService) run" where
  "print_rejected i onFinish port error svc =
     (case pr_jobs svc i of
        None \<Rightarrow> Threw svc
      | Some j \<Rightarrow>
          (let j' = j\<lparr>pj_success := False, pj_reason := error\<rparr> in
           Done () (svc\<lparr>pr_jobs := (pr_jobs svc)(i := None),
                        pr_emitted := pr_emitted svc @ finish_print onFinish port j'\<rparr>)))"

section \<open>Example endpoints, services and events\<close>

text \<open>
  Concrete inputs on which the properties below are evaluated. The world the example
  handlers act on is a log of the handler names that ran.
\<close>

definition ping_handler :: "string list handler" where
  "ping_handler args log = (Returns (JStr ''pong''), log @ [''ping''])"

definition boom_handler :: "string list handler" where
  "boom_handler args log =
     (Throws (JObj ErrorObject [(''message'', JStr ''boom'')]), log @ [''boom''])"

definition raw_throw_handler :: "string list handler" where
  "raw_throw_handler args log = (Throws (JStr ''boom''), log @ [''raw''])"

definition denied_handler :: "string list handler" where
  "denied_handler args log =
     (Returns (Failure (JStr ''denied'') Undefined Undefined), log @ [''denied''])"

definition later_handler :: "string list handler" where
  "later_handler args log = (Returns (JPromise Pending), log @ [''later''])"

definition later_denied_handler :: "string list handler" where
  "later_denied_handler args log =
     (Returns (JPromise (Fulfilled (Failure (JStr ''denied'') Undefined Undefined))),
      log @ [''later.denied''])"

definition opaque_throw_handler :: "string list handler" where
  "opaque_throw_handler args log =
     (Throws (JObj PlainObject [(''toString'', JNum 5)]), log @ [''opaque''])"

definition companion_pattern :: regexp where
  "companion_pattern s = (take 10 s = ''companion.'' \<and> 10 < length s)"

definition demo_endpoint :: "string list endpoint" where
  "demo_endpoint =
     new_Endpoint
       \<lparr>routes := [''ping'' \<mapsto> ping_handler, ''boom'' \<mapsto> boom_handler,
                   ''raw'' \<mapsto> raw_throw_handler, ''denied'' \<mapsto> denied_handler,
                   ''later'' \<mapsto> later_handler, ''later.denied'' \<mapsto> later_denied_handler,
                   ''opaque'' \<mapsto> opaque_throw_handler, ''companion.ping'' \<mapsto> ping_handler],
        pipes_plain := [Some ''companion.ping'', None, Some ''relay''],
        pipes_regexp := [None, Some companion_pattern]\<rparr>"

text \<open>
  A listener and a host client as the background script wires them, and two endpoints
  of the base class: the left one pipes \<^verbatim>\<open>x\<close>, the right one handles it.
\<close>

definition host_request :: "string list forward_method" where
  "host_request nm ps log = (Returns (JPromise Pending), log @ [''host.request '' @ nm])"

definition host_post :: "string list forward_method" where
  "host_post nm ps log = (Returns Undefined, log @ [''host.post '' @ nm])"

definition listener_post :: "string list forward_method" where
  "listener_post nm ps log = (Returns Undefined, log @ [''listener.post '' @ nm])"

definition listener_endpoint :: "string list endpoint" where
  "listener_endpoint =
     new_Endpoint
       \<lparr>pipes_regexp := [Some companion_pattern], ep_class := BackgroundListenerClass,
        post_method := Some listener_post\<rparr>"

definition host_endpoint :: "string list endpoint" where
  "host_endpoint =
     new_Endpoint
       \<lparr>pipes_plain := [Some ''background.echo''], request_method := Some host_request,
        post_method := Some host_post\<rparr>"

definition left_endpoint :: "string list endpoint" where
  "left_endpoint = new_Endpoint\<lparr>pipes_plain := [Some ''x'']\<rparr>"

definition right_endpoint :: "string list endpoint" where
  "right_endpoint = new_Endpoint\<lparr>routes := [''x'' \<mapsto> ping_handler]\<rparr>"

definition demo_store :: "string list store" where
  "demo_store =
     [0 \<mapsto> listener_endpoint, 1 \<mapsto> host_endpoint, 2 \<mapsto> left_endpoint, 3 \<mapsto> right_endpoint]"

text \<open>
  An endpoint with nothing registered that pipes the name \<^verbatim>\<open>toString\<close>, as a plain pipe
  and through a pattern.
\<close>

definition any_name :: regexp where
  "any_name s = True"

definition piping_endpoint :: "string list endpoint" where
  "piping_endpoint =
     new_Endpoint\<lparr>pipes_plain := [Some ''toString''], pipes_regexp := [Some any_name]\<rparr>"

text \<open>
  The examples are evaluated on a runtime whose own conversions they do not reach, so
  any will do.
\<close>

definition some_runtime :: runtime where
  "some_runtime =
     \<lparr>rt_member = (\<lambda>nm args. Returns Undefined), rt_StringToNumber = (\<lambda>s. None),
      rt_ToString = (\<lambda>v. [])\<rparr>"

text \<open>
  Native hosts that answer every request with code 200, with code 403, with the string
  \<^verbatim>\<open>"200"\<close> as code, with a message that is itself an object, with a code that does not
  convert, and with \<^verbatim>\<open>null\<close>.
\<close>

definition host_ok :: "request \<Rightarrow> jsval settlement" where
  "host_ok rq = Fulfilled (JObj PlainObject [(''code'', JNum 200), (''content'', JStr ''pong'')])"

definition host_forbidden :: "request \<Rightarrow> jsval settlement" where
  "host_forbidden rq = Fulfilled (JObj PlainObject [(''code'', JNum 403), (''message'', JStr ''x'')])"

definition host_string_code :: "request \<Rightarrow> jsval settlement" where
  "host_string_code rq =
     Fulfilled (JObj PlainObject [(''code'', JStr ''200''), (''content'', JStr ''pong'')])"

definition host_nested_message :: "request \<Rightarrow> jsval settlement" where
  "host_nested_message rq =
     Fulfilled (JObj PlainObject
       [(''code'', JNum 500), (''message'', JObj PlainObject [(''message'', JStr ''inner'')])])"

definition host_opaque_code :: "request \<Rightarrow> jsval settlement" where
  "host_opaque_code rq = Fulfilled (JObj PlainObject [(''code'', JObj NullPrototype [])])"

definition host_null :: "request \<Rightarrow> jsval settlement" where
  "host_null rq = Fulfilled Null"

text \<open>
  A download the service started (with a callback) and one it only saw being created,
  then the \<^verbatim>\<open>complete\<close> delta of each.
\<close>

definition started_service :: DownloadService where
  "started_service =
     final_state
       (jobStarted (JStr ''tab-1'') (new_DownloadJobResponse\<lparr>dr_name := JStr ''invoice''\<rparr>)
          (Some 5) 7 (new_DownloadService\<lparr>dirDownloads := Some ''jobs/''\<rparr>))"

definition foreign_item :: download_item where
  "foreign_item =
     \<lparr>item_id = 9, item_filename = ''other.pdf'', item_fileSize = 0, item_totalBytes = 0\<rparr>"

definition foreign_service :: DownloadService where
  "foreign_service = final_state (onCreatedListener foreign_item new_DownloadService)"

definition complete_delta :: "int \<Rightarrow> int option \<Rightarrow> download_delta" where
  "complete_delta i sz =
     \<lparr>delta_id = i, delta_error = None, delta_filename = None, delta_fileSize = sz,
      delta_totalBytes = None, delta_exists = None, delta_state = Some ''complete''\<rparr>"

definition unnamed_print_job :: PrintJob where
  "unnamed_print_job =
     \<lparr>pj_filename = ''jobs/invoice.pdf'', pj_printerName = JStr [], pj_onFinish = Some 3,
      pj_success = False, pj_reason = JStr []\<rparr>"

section \<open>Properties of the response constructors\<close>

lemma ScriptError_plain:
  "\<not> (typeof_object m \<and> truthy (js_get m ''message'')) \<Longrightarrow>
   ScriptError m ty nm =
     JObj ScriptErrorC
       [(''code'', JNum 500), (''name'', nm), (''type'', js_or ty Null), (''message'', m)]"
  by (auto simp: ScriptError_def)

text \<open>
  Claim C9. An error-like object with a message and a type should give a ScriptError
  response with that message and that type. The message is unwrapped, but the type is
  read after \<^verbatim>\<open>err\<close> has been replaced by the message: for the object
  \<^verbatim>\<open>{message: "boom", type: "io"}\<close> the response has message \<^verbatim>\<open>"boom"\<close> and type
  \<^verbatim>\<open>null\<close>, not \<^verbatim>\<open>"io"\<close>.
\<close>

theorem ScriptError_drops_input_type:
  "ScriptError (JObj ErrorObject [(''message'', JStr ''boom''), (''type'', JStr ''io'')])
       Undefined Undefined
     = JObj ScriptErrorC
         [(''code'', JNum 500), (''name'', Undefined), (''type'', Null),
          (''message'', JStr ''boom'')]"
  by (simp add: ScriptError_def js_or_def)

section \<open>The logger and the comparison with 200\<close>

lemma Logger_error_throws_iff:
  "Logger_error_throws err =
     ((\<forall>t. err \<noteq> JStr t) \<and> (\<forall>t. js_get_opt err ''message'' \<noteq> JStr t) \<and>
      unconvertible
        (if nullish (js_get_opt err ''message'') then err else js_get_opt err ''message''))"
proof -
  obtain m where m: "js_get_opt err ''message'' = m" by simp
  show ?thesis
    unfolding Logger_error_throws_def m
    by (cases err; cases m) simp_all
qed

lemma Logger_error_quiet:
  "(\<exists>t. err = JStr t) \<or> (\<exists>t. js_get_opt err ''message'' = JStr t) \<or>
   (\<not> unconvertible err \<and> \<not> unconvertible (js_get_opt err ''message'')) \<Longrightarrow>
   \<not> Logger_error_throws err"
  unfolding Logger_error_throws_iff by auto

lemma loose_equals_200_number: "loose_equals_200 rt (JNum c) = Some (c = 200)"
  by (simp add: loose_equals_200_def)

lemma loose_equals_200_digits: "loose_equals_200 rt (JStr ''200'') = Some True"
  by (simp add: loose_equals_200_def string_equals_200_def decimal_digits_def digits_value_def)

section \<open>Route resolution\<close>

lemma findRoute_regexp_find:
  "findRoute_regexp rs nm =
     (case find (\<lambda>r. case r of Some t \<Rightarrow> t nm | None \<Rightarrow> False) rs of
        Some _ \<Rightarrow> Some (PipeTo nm) | None \<Rightarrow> None)"
  by (induction rs nm rule: findRoute_regexp.induct) (simp_all add: createPipe_def)

lemma findRoute_regexp_None:
  "(\<And>r. Some r \<in> set rs \<Longrightarrow> \<not> r nm) \<Longrightarrow> findRoute_regexp rs nm = None"
proof (induction rs)
  case Nil
  then show ?case by simp
next
  case (Cons x rs)
  then show ?case by (cases x) auto
qed

lemma findRoute_registered:
  "routes ep (req_name rq) = Some f \<Longrightarrow> findRoute ep rq = Some (Registered f)"
  by (simp add: findRoute_def routes_read_def)

lemma findRoute_order:
  "findRoute ep rq =
     (case routes ep (req_name rq) of
        Some h \<Rightarrow> Some (Registered h)
      | None \<Rightarrow>
          if req_name rq \<in> set Object_prototype_names then Some (Inherited (req_name rq))
          else if Some (req_name rq) \<in> set (pipes_plain ep) then Some (PipeTo (req_name rq))
          else (case find (\<lambda>r. case r of Some t \<Rightarrow> t (req_name rq) | None \<Rightarrow> False)
                       (pipes_regexp ep) of
                  Some _ \<Rightarrow> Some (PipeTo (req_name rq))
                | None \<Rightarrow> None))"
  by (simp add: findRoute_def routes_read_def createPipe_def findRoute_regexp_find
      split: option.splits)

text \<open>
  Claim C3. Resolution should take a handler from the table of registered handlers
  first, then a plain pipe, then the first pattern that matches. The table is read with
  \<^verbatim>\<open>this.routes[request.name]\<close> on an object made by \<^verbatim>\<open>{}\<close>, so a name that was never
  registered but that every object inherits is found there: on an endpoint that has no
  handler at all and pipes \<^verbatim>\<open>toString\<close> both as a plain name and by a pattern, the
  request \<^verbatim>\<open>toString\<close> resolves to the inherited member, not to the pipe.
\<close>

theorem findRoute_inherited_member_before_pipes:
  "routes piping_endpoint ''toString'' = None \<and>
   Some ''toString'' \<in> set (pipes_plain piping_endpoint) \<and>
   findRoute piping_endpoint (Message_request ''toString'' Null) = Some (Inherited ''toString'') \<and>
   findRoute piping_endpoint (Message_request ''toString'' Null) \<noteq> Some (PipeTo ''toString'')"
  by (simp add: findRoute_def routes_read_def Object_prototype_names_def piping_endpoint_def
      new_Endpoint_def Message_request_def)

section \<open>Calling the handler\<close>

lemma findRoute_normalize_flags [simp]: "findRoute ep (normalize_flags rq) = findRoute ep rq"
  by (simp add: findRoute_def normalize_flags_def split: option.splits)

lemma buildArguments_normalize_flags [simp]:
  "buildArguments (normalize_flags rq) port = buildArguments rq port"
  by (simp add: buildArguments_def normalize_flags_def)

lemma req_name_normalize_flags [simp]: "req_name (normalize_flags rq) = req_name rq"
  by (simp add: normalize_flags_def)

lemma req_silent_normalize_flags [simp]:
  "req_silent (normalize_flags rq) = js_or (req_silent rq) (JBool False)"
  by (simp add: normalize_flags_def)

lemma js_or_falsy: "\<not> truthy v \<Longrightarrow> js_or v (JBool False) = JBool False"
  by (simp add: js_or_def)

lemma js_or_truthy: "truthy v \<Longrightarrow> js_or v (JBool False) \<noteq> JBool False"
  by (cases v) (auto simp: js_or_def)

lemma route_found:
  "findRoute ep rq = Some h \<Longrightarrow>
   route rt st ep rq port s =
     (case routeCall rt st ep h (buildArguments rq port) s of
        (Returns response, s') \<Rightarrow>
          (Returns (if js_or (req_silent rq) (JBool False) = JBool False then response
                    else Undefined), s')
      | (Throws e, s') \<Rightarrow> (Throws e, s'))"
  by (simp add: route_def Let_def split: prod.splits outcome.splits)

lemma findRoute_forwarder [simp]: "findRoute (ep\<lparr>forwarder := fw\<rparr>) rq = findRoute ep rq"
  by (simp add: findRoute_def routes_read_def split: option.splits)

lemma call_forwarder_forwarder [simp]:
  "call_forwarder (ep\<lparr>forwarder := fw\<rparr>) = call_forwarder ep"
  by (simp add: call_forwarder_def fun_eq_iff split: option.splits)

text \<open>
  Claim C1, as the code has it. When the handler of a registered route throws a value
  that \<^verbatim>\<open>Logger.error\<close> can write, a non-silent \<^verbatim>\<open>route()\<close> catches the exception and
  returns a Failure response: code 403, type \<^verbatim>\<open>null\<close>, and as message the
  \<^verbatim>\<open>message\<close> property of the thrown value (\<^verbatim>\<open>undefined\<close> when the thrown value has
  none). The caller of \<^verbatim>\<open>route()\<close> gets this response and the effects the handler had
  before it threw; for these thrown values no exception reaches it.
\<close>

theorem route_catches_handler_exception:
  assumes "routes ep (req_name rq) = Some f"
    and "f (buildArguments rq port) s = (Throws err, s')"
    and "\<not> truthy (req_silent rq)"
    and "\<not> Logger_error_throws err"
  shows "route rt st ep rq port s
           = (Returns (Failure (js_get_opt err ''message'') Undefined Undefined), s') \<and>
         instanceof_Response (Failure (js_get_opt err ''message'') Undefined Undefined) \<and>
         js_get (Failure (js_get_opt err ''message'') Undefined Undefined) ''code'' = JNum 403 \<and>
         js_get (Failure (js_get_opt err ''message'') Undefined Undefined) ''message''
           = js_get_opt err ''message'' \<and>
         js_get (Failure (js_get_opt err ''message'') Undefined Undefined) ''type'' = Null"
proof -
  have "route rt st ep rq port s
          = (Returns (Failure (js_get_opt err ''message'') Undefined Undefined), s')"
    using assms
    by (simp add: route_found [OF findRoute_registered] routeCall_def apply_handler_def
        js_or_falsy Message_failure_def)
  then show ?thesis
    by (simp add: Failure_def js_or_def)
qed

text \<open>
  A handler that throws an error object with message \<^verbatim>\<open>"boom"\<close>.
\<close>

theorem route_catches_handler_exception_witness:
  "route some_runtime Map.empty demo_endpoint (Message_request ''boom'' Null) Undefined []
     = (Returns (Failure (JStr ''boom'') Undefined Undefined), [''boom''])"
proof -
  have r: "routes demo_endpoint (req_name (Message_request ''boom'' Null)) = Some boom_handler"
    by (simp add: demo_endpoint_def new_Endpoint_def Message_request_def)
  have t: "boom_handler (buildArguments (Message_request ''boom'' Null) Undefined) []
             = (Throws (JObj ErrorObject [(''message'', JStr ''boom'')]), [''boom''])"
    by (simp add: boom_handler_def)
  have q: "\<not> truthy (req_silent (Message_request ''boom'' Null))"
    by (simp add: Message_request_def)
  have l: "\<not> Logger_error_throws (JObj ErrorObject [(''message'', JStr ''boom'')])"
    by (simp add: Logger_error_throws_def js_get_opt_def)
  show ?thesis
    using route_catches_handler_exception [OF r t q l, of some_runtime Map.empty]
    by (simp add: js_get_opt_def)
qed

text \<open>
  Against claim C1: the response for a handler that throws an error with message
  \<^verbatim>\<open>"boom"\<close> has code 403, not 500; the response for a handler that throws an object
  without a message has message \<^verbatim>\<open>undefined\<close>, not the thrown object; and when the
  handler throws an object whose own \<^verbatim>\<open>toString\<close> is not callable, the conversion in
  \<^verbatim>\<open>Logger.error\<close> throws inside the catch branch and a TypeError leaves
  \<^verbatim>\<open>route()\<close>.
\<close>

theorem route_exception_is_not_ScriptError:
  "route some_runtime Map.empty demo_endpoint (Message_request ''boom'' Null) Undefined []
     = (Returns (JObj FailureC
          [(''code'', JNum 403), (''name'', Undefined), (''type'', Null),
           (''message'', JStr ''boom'')]), [''boom'']) \<and>
   JNum 403 \<noteq> JNum 500 \<and>
   route some_runtime Map.empty demo_endpoint (Message_request ''raw'' Null) Undefined []
     = (Returns (JObj FailureC
          [(''code'', JNum 403), (''name'', Undefined), (''type'', Null),
           (''message'', Undefined)]), [''raw'']) \<and>
   Undefined \<noteq> JStr ''boom'' \<and>
   route some_runtime Map.empty demo_endpoint (Message_request ''opaque'' Null) Undefined []
     = (Throws TypeError, [''opaque''])"
  by (simp add: route_def findRoute_def routes_read_def demo_endpoint_def new_Endpoint_def
      Message_request_def normalize_flags_def
      routeCall_def apply_handler_def boom_handler_def raw_throw_handler_def
      opaque_throw_handler_def buildArguments_def Logger_error_throws_def
      Message_failure_def Failure_def js_or_def js_get_opt_def)

text \<open>
  Claim C4. When the handler of a registered route returns, a non-silent \<^verbatim>\<open>route()\<close>
  returns a promise as it is, a Response instance as it is, and any other value wrapped
  in a Success response, whose code is 200 and whose content is that value.
\<close>

theorem route_wraps_handler_result:
  assumes "routes ep (req_name rq) = Some f"
    and "f (buildArguments rq port) s = (Returns v, s')"
    and "\<not> truthy (req_silent rq)"
  shows "(instanceof_Promise v \<longrightarrow> route rt st ep rq port s = (Returns v, s')) \<and>
         (instanceof_Response v \<longrightarrow> route rt st ep rq port s = (Returns v, s')) \<and>
         (\<not> instanceof_Promise v \<and> \<not> instanceof_Response v \<longrightarrow>
            route rt st ep rq port s = (Returns (Success v Undefined), s') \<and>
            js_get (Success v Undefined) ''code'' = JNum 200 \<and>
            js_get (Success v Undefined) ''content'' = v)"
  using assms
  by (simp add: route_found [OF findRoute_registered] routeCall_def apply_handler_def
      js_or_falsy Message_success_def Success_def)

text \<open>
  A plain value, a Response and a pending promise, each from its own handler.
\<close>

theorem route_wraps_handler_result_witness:
  "route some_runtime Map.empty demo_endpoint (Message_request ''ping'' Null) Undefined []
     = (Returns (Success (JStr ''pong'') Undefined), [''ping'']) \<and>
   route some_runtime Map.empty demo_endpoint (Message_request ''denied'' Null) Undefined []
     = (Returns (Failure (JStr ''denied'') Undefined Undefined), [''denied'']) \<and>
   route some_runtime Map.empty demo_endpoint (Message_request ''later'' Null) Undefined []
     = (Returns (JPromise Pending), [''later''])"
proof -
  have q: "\<And>n. \<not> truthy (req_silent (Message_request n Null))"
    by (simp add: Message_request_def)
  have r1: "routes demo_endpoint (req_name (Message_request ''ping'' Null)) = Some ping_handler"
    and r2: "routes demo_endpoint (req_name (Message_request ''denied'' Null)) = Some denied_handler"
    and r3: "routes demo_endpoint (req_name (Message_request ''later'' Null)) = Some later_handler"
    by (simp_all add: demo_endpoint_def new_Endpoint_def Message_request_def)
  have t1: "ping_handler (buildArguments (Message_request ''ping'' Null) Undefined) []
              = (Returns (JStr ''pong''), [''ping''])"
    by (simp add: ping_handler_def)
  have t2: "denied_handler (buildArguments (Message_request ''denied'' Null) Undefined) []
              = (Returns (Failure (JStr ''denied'') Undefined Undefined), [''denied''])"
    by (simp add: denied_handler_def)
  have t3: "later_handler (buildArguments (Message_request ''later'' Null) Undefined) []
              = (Returns (JPromise Pending), [''later''])"
    by (simp add: later_handler_def)
  show ?thesis
    using route_wraps_handler_result [OF r1 t1 q, of some_runtime Map.empty]
      route_wraps_handler_result [OF r2 t2 q, of some_runtime Map.empty]
      route_wraps_handler_result [OF r3 t3 q, of some_runtime Map.empty]
    by (simp add: Failure_def)
qed

text \<open>
  Claim C5. For a request whose \<^verbatim>\<open>silent\<close> is \<^verbatim>\<open>true\<close> (or any other truthy value):
  whatever handler the name resolves to, a \<^verbatim>\<open>route()\<close> that returns returns
  \<^verbatim>\<open>undefined\<close>. A registered handler is called once with the arguments built from the
  request, and the world after \<^verbatim>\<open>route()\<close> is the one that call leaves. The handler of
  a pipe-resolved name calls the \<^verbatim>\<open>request\<close> method of the joined endpoint, or its
  \<^verbatim>\<open>post\<close> method when it has no \<^verbatim>\<open>request\<close>, once with the name and the piped
  parameters, and the world after \<^verbatim>\<open>route()\<close> is the one that call leaves. In both cases
  \<^verbatim>\<open>route()\<close> returns \<^verbatim>\<open>undefined\<close> whether the call returned or threw, except that a
  thrown value which \<^verbatim>\<open>Logger.error\<close> cannot convert makes \<^verbatim>\<open>route()\<close> throw a
  TypeError.
\<close>

theorem route_silent_returns_nothing:
  assumes "truthy (req_silent rq)"
  shows "(\<forall>h v. findRoute ep rq = Some h \<and> fst (route rt st ep rq port s) = Returns v
            \<longrightarrow> v = Undefined) \<and>
         (\<forall>f. routes ep (req_name rq) = Some f \<longrightarrow>
            route rt st ep rq port s =
              (if (\<exists>err. fst (f (buildArguments rq port) s) = Throws err \<and>
                         Logger_error_throws err)
               then Throws TypeError else Returns Undefined,
               snd (f (buildArguments rq port) s))) \<and>
         (\<forall>nm b other m.
            findRoute ep rq = Some (PipeTo nm) \<and> forwarder ep = EndpointRef b \<and>
            st b = Some other \<and>
            (request_method other = Some m \<or>
             request_method other = None \<and> post_method other = Some m) \<longrightarrow>
            route rt st ep rq port s =
              (if (\<exists>err. fst (m nm (pipe_params (ep_class ep) (buildArguments rq port)) s)
                           = Throws err \<and> Logger_error_throws err)
               then Throws TypeError else Returns Undefined,
               snd (m nm (pipe_params (ep_class ep) (buildArguments rq port)) s)))"
proof (intro conjI allI impI)
  fix h v
  assume a: "findRoute ep rq = Some h \<and> fst (route rt st ep rq port s) = Returns v"
  then show "v = Undefined"
    using assms
    by (auto simp: route_found js_or_truthy split: prod.splits outcome.splits)
next
  fix f
  assume r: "routes ep (req_name rq) = Some f"
  obtain r0 s0 where f: "f (buildArguments rq port) s = (r0, s0)"
    by (cases "f (buildArguments rq port) s")
  show "route rt st ep rq port s =
          (if (\<exists>err. fst (f (buildArguments rq port) s) = Throws err \<and>
                     Logger_error_throws err)
           then Throws TypeError else Returns Undefined,
           snd (f (buildArguments rq port) s))"
    using assms f
    by (cases r0)
      (simp_all add: route_found [OF findRoute_registered [OF r]] routeCall_def
        apply_handler_def js_or_truthy)
next
  fix nm b other m
  assume a: "findRoute ep rq = Some (PipeTo nm) \<and> forwarder ep = EndpointRef b \<and>
            st b = Some other \<and>
            (request_method other = Some m \<or>
             request_method other = None \<and> post_method other = Some m)"
  let ?ps = "pipe_params (ep_class ep) (buildArguments rq port)"
  obtain r0 s0 where m: "m nm ?ps s = (r0, s0)"
    by (cases "m nm ?ps s")
  have fw: "apply_handler rt st ep (PipeTo nm) (buildArguments rq port) s = m nm ?ps s"
    using a by (auto simp: apply_handler_def forward_def call_forwarder_def)
  show "route rt st ep rq port s =
          (if (\<exists>err. fst (m nm ?ps s) = Throws err \<and> Logger_error_throws err)
           then Throws TypeError else Returns Undefined,
           snd (m nm ?ps s))"
    using assms a m
    by (cases r0) (simp_all add: route_found routeCall_def fw js_or_truthy)
qed

text \<open>
  The silent ping, whose handler writes its entry in the log, and a silent request that
  the listener pipes to the host client, whose \<^verbatim>\<open>request\<close> method writes its entry.
\<close>

theorem route_silent_returns_nothing_witness:
  "route some_runtime Map.empty demo_endpoint
       ((Message_request ''ping'' Null)\<lparr>req_silent := JBool True\<rparr>) Undefined []
     = (Returns Undefined, [''ping'']) \<and>
   route some_runtime (join 0 1 demo_store) (listener_endpoint\<lparr>forwarder := EndpointRef 1\<rparr>)
       ((Message_request ''companion.ping'' Null)\<lparr>req_silent := JBool True\<rparr>)
       (JStr ''tab-1'') []
     = (Returns Undefined, [''host.request companion.ping''])"
proof -
  let ?rq = "(Message_request ''ping'' Null)\<lparr>req_silent := JBool True\<rparr>"
  let ?rp = "(Message_request ''companion.ping'' Null)\<lparr>req_silent := JBool True\<rparr>"
  let ?ep = "listener_endpoint\<lparr>forwarder := EndpointRef 1\<rparr>"
  have t: "truthy (req_silent ?rq)" and tp: "truthy (req_silent ?rp)"
    by simp_all
  have r: "routes demo_endpoint (req_name ?rq) = Some ping_handler"
    by (simp add: demo_endpoint_def new_Endpoint_def Message_request_def)
  have p: "findRoute ?ep ?rp = Some (PipeTo ''companion.ping'')"
    by (simp add: findRoute_def routes_read_def Object_prototype_names_def
        listener_endpoint_def new_Endpoint_def Message_request_def companion_pattern_def
        createPipe_def)
  have b: "join 0 1 demo_store 1 = Some (host_endpoint\<lparr>forwarder := EndpointRef 0\<rparr>)"
    by (simp add: join_def demo_store_def)
  have w: "forwarder ?ep = EndpointRef 1"
    and m: "request_method (host_endpoint\<lparr>forwarder := EndpointRef 0\<rparr>) = Some host_request"
    by (simp_all add: host_endpoint_def new_Endpoint_def)
  have one: "route some_runtime Map.empty demo_endpoint ?rq Undefined []
               = (Returns Undefined, [''ping''])"
    using route_silent_returns_nothing [OF t, of demo_endpoint some_runtime Map.empty Undefined "[]"] r
    by (simp add: ping_handler_def)
  have two: "route some_runtime (join 0 1 demo_store) ?ep ?rp (JStr ''tab-1'') []
               = (Returns Undefined, [''host.request companion.ping''])"
    using route_silent_returns_nothing
      [OF tp, of ?ep some_runtime "join 0 1 demo_store" "JStr ''tab-1''" "[]"] p b w m
    by (simp add: host_request_def)
  show ?thesis
    using one two by simp
qed

section \<open>Names that resolve to nothing\<close>

lemma route_unknown:
  assumes "routes ep (req_name rq) = None"
    and "req_name rq \<notin> set Object_prototype_names"
    and "Some (req_name rq) \<notin> set (pipes_plain ep)"
    and "\<forall>r. Some r \<in> set (pipes_regexp ep) \<longrightarrow> \<not> r (req_name rq)"
  shows "route rt st ep rq port s
           = (Returns (Unknown (JStr (''Unknown route '' @ quoted (req_name rq))) Undefined), s)"
proof -
  have "findRoute_regexp (pipes_regexp ep) (req_name rq) = (None :: 'a route_handler option)"
    using assms(4) by (intro findRoute_regexp_None) blast
  then have "findRoute ep rq = None"
    using assms(1-3) by (simp add: findRoute_def routes_read_def)
  then show ?thesis
    by (simp add: route_def Message_unknown_def)
qed

text \<open>
  Claim C6. A name that is not registered and that no pipe matches should get an Unknown
  response with code 404. On a new endpoint, with nothing registered and nothing piped,
  the request \<^verbatim>\<open>toString\<close> finds the member every object inherits in the table of
  handlers; \<^verbatim>\<open>route()\<close> calls it on the endpoint and returns its result wrapped in a
  Success response with code 200.
\<close>

theorem route_calls_inherited_member:
  "routes new_Endpoint ''toString'' = None \<and>
   pipes_plain new_Endpoint = [] \<and> pipes_regexp new_Endpoint = [] \<and>
   route rt st new_Endpoint (Message_request ''toString'' Null) Undefined s
     = (Returns (Success (JStr ''[object Object]'') Undefined), s) \<and>
   js_get (Success (JStr ''[object Object]'') Undefined) ''code'' = JNum 200"
  by (simp add: route_def findRoute_def routes_read_def Object_prototype_names_def
      new_Endpoint_def Message_request_def normalize_flags_def js_or_def routeCall_def
      apply_handler_def Object_prototype_apply_def buildArguments_def Message_success_def
      Success_def)

section \<open>Joined endpoints\<close>

lemma join_left: "st a = Some ea \<Longrightarrow> st b = Some eb \<Longrightarrow> a \<noteq> b \<Longrightarrow>
    join a b st a = Some (ea\<lparr>forwarder := EndpointRef b\<rparr>)"
  by (simp add: join_def)

lemma join_right: "st a = Some ea \<Longrightarrow> st b = Some eb \<Longrightarrow> a \<noteq> b \<Longrightarrow>
    join a b st b = Some (eb\<lparr>forwarder := EndpointRef a\<rparr>)"
  by (simp add: join_def)

lemma route_piped:
  "findRoute ep rq = Some (PipeTo nm) \<Longrightarrow> \<not> truthy (req_silent rq) \<Longrightarrow>
   route rt st ep rq port s = routeCall rt st ep (PipeTo nm) (buildArguments rq port) s"
  by (simp add: route_found js_or_def split: prod.splits outcome.splits)

text \<open>
  Claim C10, as the code has it. After \<^verbatim>\<open>join\<close> each of the two endpoints has the other
  as its forwarder, and the handler of a pipe-resolved route calls, through
  \<^verbatim>\<open>forward()\<close>, the other's \<^verbatim>\<open>request\<close> method if it has one, else its \<^verbatim>\<open>post\<close> method,
  and nothing if it has neither. Once the forwarder is the empty object the pipe handler
  returns \<^verbatim>\<open>undefined\<close> without throwing, and a non-silent \<^verbatim>\<open>route()\<close> returns that value
  wrapped in a Success response.
\<close>

theorem joined_pipes_forward_to_each_other:
  assumes "st a = Some ea" and "st b = Some eb" and "a \<noteq> b"
    and "findRoute ea rqa = Some (PipeTo na)"
    and "findRoute eb rqb = Some (PipeTo nb)"
    and "\<not> truthy (req_silent rqa)"
  shows "join a b st a = Some (ea\<lparr>forwarder := EndpointRef b\<rparr>) \<and>
         join a b st b = Some (eb\<lparr>forwarder := EndpointRef a\<rparr>) \<and>
         apply_handler rt (join a b st) (ea\<lparr>forwarder := EndpointRef b\<rparr>) (PipeTo na) args s
           = call_forwarder eb na (pipe_params (ep_class ea) args) s \<and>
         apply_handler rt (join a b st) (eb\<lparr>forwarder := EndpointRef a\<rparr>) (PipeTo nb) args s
           = call_forwarder ea nb (pipe_params (ep_class eb) args) s \<and>
         (request_method eb = None \<and> post_method eb = None \<longrightarrow>
            call_forwarder eb na (pipe_params (ep_class ea) args) s = (Returns Undefined, s)) \<and>
         apply_handler rt (join a b st) (ea\<lparr>forwarder := EmptyObject\<rparr>) (PipeTo na) args s
           = (Returns Undefined, s) \<and>
         route rt (join a b st) (ea\<lparr>forwarder := EmptyObject\<rparr>) rqa port s
           = (Returns (Success Undefined Undefined), s)"
proof -
  have l: "join a b st a = Some (ea\<lparr>forwarder := EndpointRef b\<rparr>)"
    using assms(1-3) by (rule join_left)
  have r: "join a b st b = Some (eb\<lparr>forwarder := EndpointRef a\<rparr>)"
    using assms(1-3) by (rule join_right)
  have e: "apply_handler rt (join a b st) (ea\<lparr>forwarder := EmptyObject\<rparr>) (PipeTo na) args s
             = (Returns Undefined, s)" for args
    by (simp add: apply_handler_def forward_def)
  have "route rt (join a b st) (ea\<lparr>forwarder := EmptyObject\<rparr>) rqa port s
           = (Returns (Success Undefined Undefined), s)"
    using assms(4,6) by (simp add: route_piped routeCall_def e Message_success_def)
  then show ?thesis
    using l r e by (simp add: apply_handler_def forward_def call_forwarder_def)
qed

text \<open>
  The listener and the host client of the background script: the listener's pipe reaches
  the client's \<^verbatim>\<open>request\<close>, the client's pipe reaches the listener's \<^verbatim>\<open>post\<close>.
\<close>

theorem joined_pipes_forward_to_each_other_witness:
  "route some_runtime (join 0 1 demo_store) (listener_endpoint\<lparr>forwarder := EndpointRef 1\<rparr>)
       (Message_request ''companion.ping'' Null) (JStr ''tab-1'') []
     = (Returns (JPromise Pending), [''host.request companion.ping'']) \<and>
   apply_handler some_runtime (join 0 1 demo_store) (host_endpoint\<lparr>forwarder := EndpointRef 0\<rparr>)
       (PipeTo ''background.echo'') [] []
     = (Returns Undefined, [''listener.post background.echo'']) \<and>
   route some_runtime (join 0 1 demo_store) (listener_endpoint\<lparr>forwarder := EmptyObject\<rparr>)
       (Message_request ''companion.ping'' Null) (JStr ''tab-1'') []
     = (Returns (Success Undefined Undefined), [])"
proof -
  let ?rqa = "Message_request ''companion.ping'' Null"
  let ?rqb = "Message_request ''background.echo'' Null"
  have a: "demo_store 0 = Some listener_endpoint" and b: "demo_store 1 = Some host_endpoint"
    by (simp_all add: demo_store_def)
  have n: "(0::nat) \<noteq> 1" by simp
  have fa: "findRoute listener_endpoint ?rqa = Some (PipeTo ''companion.ping'')"
    by (simp add: findRoute_def routes_read_def Object_prototype_names_def
        listener_endpoint_def new_Endpoint_def Message_request_def
        companion_pattern_def createPipe_def)
  have fb: "findRoute host_endpoint ?rqb = Some (PipeTo ''background.echo'')"
    by (simp add: findRoute_def routes_read_def Object_prototype_names_def host_endpoint_def
        new_Endpoint_def Message_request_def createPipe_def)
  have q: "\<not> truthy (req_silent ?rqa)"
    by (simp add: Message_request_def)
  have "route some_runtime (join 0 1 demo_store) (listener_endpoint\<lparr>forwarder := EndpointRef 1\<rparr>)
       ?rqa (JStr ''tab-1'') []
     = routeCall some_runtime (join 0 1 demo_store)
         (listener_endpoint\<lparr>forwarder := EndpointRef 1\<rparr>)
         (PipeTo ''companion.ping'') (buildArguments ?rqa (JStr ''tab-1'')) []"
    using fa q by (simp add: route_piped)
  then show ?thesis
    using joined_pipes_forward_to_each_other
        [OF a b n fa fb q, of some_runtime "[JStr ''tab-1'', Null]" "[]"]
      joined_pipes_forward_to_each_other
        [OF a b n fa fb q, of some_runtime "[]" "[]" "JStr ''tab-1''"]
    by (simp add: routeCall_def buildArguments_def Message_request_def call_forwarder_def
        host_endpoint_def listener_endpoint_def new_Endpoint_def host_request_def
        listener_post_def)
qed

text \<open>
  Two joined endpoints of the base class have no \<^verbatim>\<open>request\<close> and no \<^verbatim>\<open>post\<close>: the
  left one's pipe for \<^verbatim>\<open>x\<close> does not reach the right one's handler for \<^verbatim>\<open>x\<close> (the log
  stays empty). And what \<^verbatim>\<open>route()\<close> returns for a pipe-resolved call once the forwarder
  is the empty object is a Success response, not \<^verbatim>\<open>undefined\<close> as claim C10 states.
\<close>

theorem unjoined_pipe_call_is_wrapped:
  "route some_runtime (join 2 3 demo_store) (the (join 2 3 demo_store 2))
       (Message_request ''x'' Null) Undefined []
     = (Returns (Success Undefined Undefined), []) \<and>
   forwarder (the (join 2 3 demo_store 2)) = EndpointRef 3 \<and>
   fst (route some_runtime demo_store (left_endpoint\<lparr>forwarder := EmptyObject\<rparr>)
          (Message_request ''x'' Null) Undefined [])
     = Returns (JObj SuccessC
         [(''code'', JNum 200), (''name'', Undefined), (''refid'', Undefined),
          (''content'', Undefined)]) \<and>
   fst (route some_runtime demo_store (left_endpoint\<lparr>forwarder := EmptyObject\<rparr>)
          (Message_request ''x'' Null) Undefined [])
     \<noteq> Returns Undefined"
  by (simp add: route_def findRoute_def routes_read_def Object_prototype_names_def join_def
      demo_store_def left_endpoint_def right_endpoint_def new_Endpoint_def Message_request_def
      normalize_flags_def createPipe_def routeCall_def
      apply_handler_def forward_def call_forwarder_def buildArguments_def js_or_def
      Message_success_def Success_def)

section \<open>The adapters' deferred results\<close>

lemma settle_on_code_compared:
  "\<not> nullish resp \<Longrightarrow> loose_equals_200 rt (js_get resp ''code'') = Some b \<Longrightarrow>
   settle_on_code rt resp =
     Some (if b then Fulfilled resp
           else Rejected (ScriptError (js_get resp ''message'') (js_get resp ''type'') Undefined))"
  by (simp add: settle_on_code_def Message_error_def)

text \<open>
  Claim C2, as the code has it. Both adapters settle on the loose comparison
  \<^verbatim>\<open>response.code == 200\<close>: a numeric code compares equal exactly when it is 200, and the
  string \<^verbatim>\<open>"200"\<close> compares equal too. For a native-host response that is not
  \<^verbatim>\<open>null\<close> or \<^verbatim>\<open>undefined\<close> and whose code can be compared, the promise of
  \<^verbatim>\<open>NativeHostClient.request\<close> is fulfilled with the response when the comparison holds
  and is otherwise rejected with \<^verbatim>\<open>Message.error(response.message, response.type)\<close>;
  the request is sent to the host once. The same holds of
  \<^verbatim>\<open>BackgroundListener.handleRequest\<close> for a response that \<^verbatim>\<open>route()\<close> returned and
  that is neither a promise nor \<^verbatim>\<open>undefined\<close>; a promise from \<^verbatim>\<open>route()\<close> is returned as it is; and the world
  after \<^verbatim>\<open>handleRequest\<close> is the one its single call of \<^verbatim>\<open>route()\<close> leaves. The
  rejection value is a ScriptError response with code 500; its message is the
  response's message, or the inner message when the response's message is itself an
  object with a message; its type, when the message is not such an object, is the
  response's type, or \<^verbatim>\<open>null\<close> when that is missing or otherwise falsy.
\<close>

theorem adapters_settle_on_code_200:
  "(sendNativeMessage ((Message_request nm ps)\<lparr>req_async := js_or as (JBool False)\<rparr>)
        = Fulfilled resp \<and> \<not> nullish resp \<and>
    loose_equals_200 rt (js_get resp ''code'') = Some b \<longrightarrow>
      fst (NativeHostClient_request rt sendNativeMessage nm ps as sent) =
        JPromise (if b then Fulfilled resp
                  else Rejected (ScriptError (js_get resp ''message'') (js_get resp ''type'')
                                   Undefined))) \<and>
   snd (NativeHostClient_request rt sendNativeMessage nm ps as sent)
     = sent @ [(Message_request nm ps)\<lparr>req_async := js_or as (JBool False)\<rparr>] \<and>
   (route rt st ep rq port s = (Returns resp, s') \<and> \<not> instanceof_Promise resp \<and>
    \<not> nullish resp \<and> loose_equals_200 rt (js_get resp ''code'') = Some b \<longrightarrow>
      handleRequest rt st ep rq port s =
        (Returns
           (JPromise (if b then Fulfilled resp
                      else Rejected (ScriptError (js_get resp ''message'')
                                       (js_get resp ''type'') Undefined))), s')) \<and>
   (route rt st ep rq port s = (Returns resp, s') \<and> instanceof_Promise resp \<longrightarrow>
      handleRequest rt st ep rq port s = (Returns resp, s')) \<and>
   snd (handleRequest rt st ep rq port s) = snd (route rt st ep rq port s) \<and>
   loose_equals_200 rt (JNum c) = Some (c = 200) \<and>
   loose_equals_200 rt (JStr ''200'') = Some True \<and>
   (\<not> (typeof_object m \<and> truthy (js_get m ''message'')) \<longrightarrow>
      js_get (ScriptError m ty Undefined) ''code'' = JNum 500 \<and>
      js_get (ScriptError m ty Undefined) ''message'' = m \<and>
      js_get (ScriptError m ty Undefined) ''type'' = (if truthy ty then ty else Null)) \<and>
   (typeof_object m \<and> m \<noteq> Null \<and> truthy (js_get m ''message'') \<longrightarrow>
      js_get (ScriptError m ty Undefined) ''code'' = JNum 500 \<and>
      js_get (ScriptError m ty Undefined) ''message'' = js_get m ''message'')"
proof (intro conjI impI)
  assume a: "sendNativeMessage ((Message_request nm ps)\<lparr>req_async := js_or as (JBool False)\<rparr>)
        = Fulfilled resp \<and> \<not> nullish resp \<and>
    loose_equals_200 rt (js_get resp ''code'') = Some b"
  then show "fst (NativeHostClient_request rt sendNativeMessage nm ps as sent) =
        JPromise (if b then Fulfilled resp
                  else Rejected (ScriptError (js_get resp ''message'') (js_get resp ''type'')
                                   Undefined))"
    by (simp add: NativeHostClient_request_def Let_def settle_on_code_compared)
next
  show "snd (NativeHostClient_request rt sendNativeMessage nm ps as sent)
     = sent @ [(Message_request nm ps)\<lparr>req_async := js_or as (JBool False)\<rparr>]"
    by (simp add: NativeHostClient_request_def Let_def)
next
  assume a: "route rt st ep rq port s = (Returns resp, s') \<and> \<not> instanceof_Promise resp \<and>
    \<not> nullish resp \<and> loose_equals_200 rt (js_get resp ''code'') = Some b"
  then show "handleRequest rt st ep rq port s =
        (Returns
           (JPromise (if b then Fulfilled resp
                      else Rejected (ScriptError (js_get resp ''message'')
                                       (js_get resp ''type'') Undefined))), s')"
    by (simp add: handleRequest_def settle_on_code_compared)
next
  assume "route rt st ep rq port s = (Returns resp, s') \<and> instanceof_Promise resp"
  then show "handleRequest rt st ep rq port s = (Returns resp, s')"
    by (simp add: handleRequest_def)
next
  show "snd (handleRequest rt st ep rq port s) = snd (route rt st ep rq port s)"
    by (simp add: handleRequest_def split: prod.splits outcome.splits)
next
  show "loose_equals_200 rt (JNum c) = Some (c = 200)"
    by (rule loose_equals_200_number)
next
  show "loose_equals_200 rt (JStr ''200'') = Some True"
    by (rule loose_equals_200_digits)
next
  assume a: "\<not> (typeof_object m \<and> truthy (js_get m ''message''))"
  show "js_get (ScriptError m ty Undefined) ''code'' = JNum 500"
    by (simp add: ScriptError_plain [OF a])
  show "js_get (ScriptError m ty Undefined) ''message'' = m"
    by (simp add: ScriptError_plain [OF a])
  show "js_get (ScriptError m ty Undefined) ''type'' = (if truthy ty then ty else Null)"
    by (simp add: ScriptError_plain [OF a] js_or_def)
next
  assume a: "typeof_object m \<and> m \<noteq> Null \<and> truthy (js_get m ''message'')"
  then show "js_get (ScriptError m ty Undefined) ''code'' = JNum 500"
    by (simp add: ScriptError_def Let_def)
  from a show "js_get (ScriptError m ty Undefined) ''message'' = js_get m ''message''"
    by (simp add: ScriptError_def Let_def)
qed

text \<open>
  The two literal answers of the native host, \<^verbatim>\<open>{code: 200, ...}\<close> and
  \<^verbatim>\<open>{code: 403, message: "x"}\<close>, and two routes of the example endpoint.
\<close>

theorem adapters_settle_on_code_200_witness:
  "NativeHostClient_request some_runtime host_ok ''companion.ping'' Null Undefined []
     = (JPromise (Fulfilled (JObj PlainObject
                    [(''code'', JNum 200), (''content'', JStr ''pong'')])),
        [Message_request ''companion.ping'' Null]) \<and>
   fst (NativeHostClient_request some_runtime host_forbidden ''companion.ping'' Null Undefined [])
     = JPromise (Rejected (JObj ScriptErrorC
         [(''code'', JNum 500), (''name'', Undefined), (''type'', Null),
          (''message'', JStr ''x'')])) \<and>
   handleRequest some_runtime Map.empty demo_endpoint (Message_request ''ping'' Null) Undefined []
     = (Returns (JPromise (Fulfilled (Success (JStr ''pong'') Undefined))), [''ping'']) \<and>
   handleRequest some_runtime Map.empty demo_endpoint (Message_request ''denied'' Null)
       Undefined []
     = (Returns (JPromise (Rejected (JObj ScriptErrorC
         [(''code'', JNum 500), (''name'', Undefined), (''type'', Null),
          (''message'', JStr ''denied'')]))), [''denied''])"
proof -
  let ?ok = "JObj PlainObject [(''code'', JNum 200), (''content'', JStr ''pong'')]"
  let ?no = "JObj PlainObject [(''code'', JNum 403), (''message'', JStr ''x'')]"
  have r1: "route some_runtime Map.empty demo_endpoint (Message_request ''ping'' Null)
              Undefined [] = (Returns (Success (JStr ''pong'') Undefined), [''ping''])"
    by (simp add: route_found [OF findRoute_registered] demo_endpoint_def new_Endpoint_def
        Message_request_def routeCall_def apply_handler_def ping_handler_def js_or_def
        Message_success_def)
  have r2: "route some_runtime Map.empty demo_endpoint (Message_request ''denied'' Null)
              Undefined [] = (Returns (Failure (JStr ''denied'') Undefined Undefined), [''denied''])"
    by (simp add: route_found [OF findRoute_registered] demo_endpoint_def new_Endpoint_def
        Message_request_def routeCall_def apply_handler_def denied_handler_def js_or_def
        Failure_def)
  have n1: "NativeHostClient_request some_runtime host_ok ''companion.ping'' Null Undefined []
     = (JPromise (Fulfilled ?ok), [Message_request ''companion.ping'' Null])"
    using adapters_settle_on_code_200 [where sendNativeMessage = host_ok
        and nm = "''companion.ping''" and ps = Null and as = Undefined and resp = ?ok
        and rt = some_runtime and b = True and sent = "[]"
        and st = Map.empty and ep = demo_endpoint
        and rq = "Message_request ''ping'' Null" and port = Undefined and s = "[]"
        and s' = "[]" and c = 200 and m = "JStr ''x''" and ty = Undefined]
    by (simp add: host_ok_def loose_equals_200_def prod_eq_iff Message_request_def js_or_def)
  have n2: "fst (NativeHostClient_request some_runtime host_forbidden ''companion.ping'' Null
                   Undefined [])
     = JPromise (Rejected (ScriptError (JStr ''x'') Undefined Undefined))"
    using adapters_settle_on_code_200 [where sendNativeMessage = host_forbidden
        and nm = "''companion.ping''" and ps = Null and as = Undefined and resp = ?no
        and rt = some_runtime and b = False and sent = "[]"
        and st = Map.empty and ep = demo_endpoint
        and rq = "Message_request ''ping'' Null" and port = Undefined and s = "[]"
        and s' = "[]" and c = 403 and m = "JStr ''x''" and ty = Undefined]
    by (simp add: host_forbidden_def loose_equals_200_def)
  have h1: "handleRequest some_runtime Map.empty demo_endpoint (Message_request ''ping'' Null)
              Undefined []
     = (Returns (JPromise (Fulfilled (Success (JStr ''pong'') Undefined))), [''ping''])"
    using adapters_settle_on_code_200 [where sendNativeMessage = host_ok
        and nm = "''companion.ping''" and ps = Null and as = Undefined
        and resp = "Success (JStr ''pong'') Undefined"
        and rt = some_runtime and b = True and sent = "[]"
        and st = Map.empty and ep = demo_endpoint
        and rq = "Message_request ''ping'' Null" and port = Undefined and s = "[]"
        and s' = "[''ping'']" and c = 200 and m = "JStr ''x''" and ty = Undefined]
    by (simp add: r1 Success_def loose_equals_200_def)
  have h2: "handleRequest some_runtime Map.empty demo_endpoint (Message_request ''denied'' Null)
              Undefined []
     = (Returns (JPromise (Rejected (ScriptError (JStr ''denied'') Null Undefined))),
        [''denied''])"
    using adapters_settle_on_code_200 [where sendNativeMessage = host_ok
        and nm = "''companion.ping''" and ps = Null and as = Undefined
        and resp = "Failure (JStr ''denied'') Undefined Undefined"
        and rt = some_runtime and b = False and sent = "[]"
        and st = Map.empty and ep = demo_endpoint
        and rq = "Message_request ''denied'' Null" and port = Undefined and s = "[]"
        and s' = "[''denied'']" and c = 403 and m = "JStr ''x''" and ty = Undefined]
    by (simp add: r2 Failure_def js_or_def loose_equals_200_def)
  show ?thesis
    by (simp add: n1 n2 h1 h2 ScriptError_def js_or_def)
qed

text \<open>
  Against claim C2: a handler's promise that is fulfilled with a 403 response leaves
  \<^verbatim>\<open>handleRequest\<close> fulfilled; the answer \<^verbatim>\<open>{code: 403, message: "x"}\<close> has no type,
  yet it is rejected with type \<^verbatim>\<open>null\<close>; an answer whose code is the string
  \<^verbatim>\<open>"200"\<close> resolves; an answer whose message is an object with a message is rejected
  with the inner message; for an answer whose code cannot be compared, or an answer
  \<^verbatim>\<open>null\<close>, the promise of the native request is neither resolved nor rejected; and
  for a silent request, where \<^verbatim>\<open>route()\<close> returns \<^verbatim>\<open>undefined\<close>, the promise of
  \<^verbatim>\<open>handleRequest\<close> is rejected with the TypeError of the failed read, which carries
  nothing of a response.
\<close>

theorem handler_promise_passes_through_unchecked:
  "handleRequest some_runtime Map.empty demo_endpoint (Message_request ''later.denied'' Null)
       Undefined []
     = (Returns (JPromise (Fulfilled (JObj FailureC
          [(''code'', JNum 403), (''name'', Undefined), (''type'', Null),
           (''message'', JStr ''denied'')]))), [''later.denied'']) \<and>
   fst (NativeHostClient_request some_runtime host_forbidden ''companion.ping'' Null Undefined [])
     = JPromise (Rejected (JObj ScriptErrorC
         [(''code'', JNum 500), (''name'', Undefined), (''type'', Null),
          (''message'', JStr ''x'')])) \<and>
   js_get (JObj PlainObject [(''code'', JNum 403), (''message'', JStr ''x'')]) ''type''
     = Undefined \<and>
   fst (NativeHostClient_request some_runtime host_string_code ''companion.ping'' Null
          Undefined [])
     = JPromise (Fulfilled (JObj PlainObject
         [(''code'', JStr ''200''), (''content'', JStr ''pong'')])) \<and>
   JStr ''200'' \<noteq> JNum 200 \<and>
   fst (NativeHostClient_request some_runtime host_nested_message ''companion.ping'' Null
          Undefined [])
     = JPromise (Rejected (JObj ScriptErrorC
         [(''code'', JNum 500), (''name'', Undefined), (''type'', Null),
          (''message'', JStr ''inner'')])) \<and>
   JStr ''inner'' \<noteq> JObj PlainObject [(''message'', JStr ''inner'')] \<and>
   fst (NativeHostClient_request some_runtime host_opaque_code ''companion.ping'' Null
          Undefined [])
     = JPromise Pending \<and>
   fst (NativeHostClient_request some_runtime host_null ''companion.ping'' Null Undefined [])
     = JPromise Pending \<and>
   handleRequest some_runtime Map.empty demo_endpoint
       ((Message_request ''ping'' Null)\<lparr>req_silent := JBool True\<rparr>) Undefined []
     = (Returns (JPromise (Rejected TypeError)), [''ping''])"
  by (simp add: handleRequest_def route_def ping_handler_def buildArguments_def findRoute_def routes_read_def demo_endpoint_def
      new_Endpoint_def Message_request_def normalize_flags_def routeCall_def apply_handler_def
      later_denied_handler_def js_or_def Failure_def NativeHostClient_request_def
      host_forbidden_def host_string_code_def host_nested_message_def host_opaque_code_def
      host_null_def settle_on_code_def loose_equals_200_def string_equals_200_def
      decimal_digits_def digits_value_def Message_error_def ScriptError_def)

section \<open>Completed downloads\<close>

text \<open>
  Claim C7, as the code has it. For a tracked download that has a response and a
  completion callback, a delta without an error whose state is \<^verbatim>\<open>complete\<close> ends the job:
  when the file size recorded after the delta is 0 the callback is called with
  \<^verbatim>\<open>success = false\<close> and reason \<^verbatim>\<open>"Empty content"\<close>, and the file and the history entry
  are removed; otherwise the callback is called with \<^verbatim>\<open>success = true\<close> and an empty
  reason, and nothing else is called. In both cases the entry is deleted from the
  registry.
\<close>

theorem complete_download_is_notified_and_cleaned:
  assumes "dl_jobs svc (delta_id d) = Some j"
    and "job_response j = Some r"
    and "job_onFinish j = Some cb"
    and "delta_error d = None"
    and "delta_state d = Some ''complete''"
  shows "\<exists>svc'. onChangedListener d svc = Done () svc' \<and>
           dl_jobs svc' = (dl_jobs svc)(delta_id d := None) \<and>
           dirDownloads svc' = dirDownloads svc \<and>
           dl_emitted svc' = dl_emitted svc @
             (if (case delta_fileSize d of Some n \<Rightarrow> n | None \<Rightarrow> job_fileSize j) = 0
              then [OnFinish cb (job_port j)
                      (r\<lparr>dr_downloading := False, dr_success := False,
                         dr_reason := JStr ''Empty content'',
                         dr_destination :=
                           (case delta_filename d of Some f \<Rightarrow> f | None \<Rightarrow> job_filename j)\<rparr>),
                    RemoveFile (delta_id d), Erase (delta_id d)]
              else [OnFinish cb (job_port j)
                      (r\<lparr>dr_downloading := False, dr_success := True,
                         dr_reason := JStr [],
                         dr_destination :=
                           (case delta_filename d of Some f \<Rightarrow> f | None \<Rightarrow> job_filename j)\<rparr>)])"
  using assms
  by (cases svc; cases j)
    (auto simp: onChangedListener_def Let_def and_then_def update_entry_def set_destination_def
      on_complete_def notify_and_cleanup_def notifyDownloadJob_def cleanupJob_def js_or_def
      split: option.splits)

text \<open>
  The download the service started, completing empty and completing with 2048 bytes.
\<close>

theorem complete_download_is_notified_and_cleaned_witness:
  "onChangedListener (complete_delta 7 None) started_service
     = Done ()
         (started_service
            \<lparr>dl_jobs := (dl_jobs started_service)(7 := None),
             dl_emitted :=
               [OnFinish 5 (JStr ''tab-1'')
                  \<lparr>dr_id = JNum 0, dr_name = JStr ''invoice'', dr_destination = [],
                   dr_reason = JStr ''Empty content'', dr_success = False,
                   dr_downloading = False\<rparr>,
                RemoveFile 7, Erase 7]\<rparr>) \<and>
   dl_emitted (final_state (onChangedListener (complete_delta 7 (Some 2048)) started_service))
     = [OnFinish 5 (JStr ''tab-1'')
          \<lparr>dr_id = JNum 0, dr_name = JStr ''invoice'', dr_destination = [],
           dr_reason = JStr [], dr_success = True, dr_downloading = False\<rparr>]"
proof -
  let ?j = "\<lparr>job_port = JStr ''tab-1'',
             job_response = Some (new_DownloadJobResponse\<lparr>dr_name := JStr ''invoice'',
                                    dr_downloading := True\<rparr>),
             job_onFinish = Some 5, job_id = 7, job_filename = [], job_fileSize = 0,
             job_totalBytes = 0, job_exists = None\<rparr>"
  let ?r = "new_DownloadJobResponse\<lparr>dr_name := JStr ''invoice'', dr_downloading := True\<rparr>"
  have j: "dl_jobs started_service (delta_id (complete_delta 7 sz)) = Some ?j" for sz
    by (simp add: started_service_def jobStarted_def new_DownloadService_def complete_delta_def)
  have r: "job_response ?j = Some ?r" and c: "job_onFinish ?j = Some 5"
    by simp_all
  have e: "delta_error (complete_delta 7 sz) = None"
    and t: "delta_state (complete_delta 7 sz) = Some ''complete''" for sz
    by (simp_all add: complete_delta_def)
  have em: "dl_emitted started_service = []"
    by (simp add: started_service_def jobStarted_def new_DownloadService_def)
  show ?thesis
    using complete_download_is_notified_and_cleaned [OF j r c e t, of None]
      complete_download_is_notified_and_cleaned [OF j r c e t, of "Some 2048"]
    by (auto simp: complete_delta_def new_DownloadJobResponse_def em)
qed

text \<open>
  A download the service did not start is tracked from its \<^verbatim>\<open>created\<close> event on, without
  response or callback. When it completes with size 0 its file and history entry are
  removed, but nobody is notified, against claim C7.
\<close>

theorem foreign_download_completes_without_notification:
  "dl_jobs foreign_service 9 \<noteq> None \<and>
   completed (onChangedListener (complete_delta 9 None) foreign_service) \<and>
   dl_emitted (final_state (onChangedListener (complete_delta 9 None) foreign_service))
     = [RemoveFile 9, Erase 9] \<and>
   dl_jobs (final_state (onChangedListener (complete_delta 9 None) foreign_service)) 9 = None"
  by (simp add: foreign_service_def onCreatedListener_def foreign_item_def
      new_DownloadService_def onChangedListener_def complete_delta_def and_then_def
      on_complete_def notify_and_cleanup_def notifyDownloadJob_def cleanupJob_def)

section \<open>Print jobs without a printer\<close>

text \<open>
  Claim C8. A print job whose \<^verbatim>\<open>printerName\<close> is missing or empty is dropped:
  \<^verbatim>\<open>createJob\<close> returns \<^verbatim>\<open>undefined\<close> and the service is as before, so no request went to
  the native host, no callback was called, and the registry and the configuration are
  unchanged.
\<close>

theorem createJob_without_printer_is_dropped:
  assumes "\<not> truthy (pj_printerName job)"
  shows "createJob port job svc = Done Undefined svc"
  using assms by (simp add: createJob_def)

text \<open>
  A job with an empty printer name on a configured service.
\<close>

theorem createJob_without_printer_is_dropped_witness:
  "createJob (JStr ''tab-1'') unnamed_print_job (configure ''print/'' 1 new_PrinterService)
     = Done Undefined (configure ''print/'' 1 new_PrinterService) \<and>
   pr_emitted (configure ''print/'' 1 new_PrinterService) = [] \<and>
   pr_jobs (configure ''print/'' 1 new_PrinterService) ''jobs/invoice.pdf'' = None"
proof -
  have "\<not> truthy (pj_printerName unnamed_print_job)"
    by (simp add: unnamed_print_job_def)
  then show ?thesis
    using createJob_without_printer_is_dropped
      [of unnamed_print_job "JStr ''tab-1''" "configure ''print/'' 1 new_PrinterService"]
    by (simp add: configure_def new_PrinterService_def)
qed

end
